theory Spec2Isabelle
  imports Complex_Main
begin

section \<open>Values of the JavaScript runtime\<close>

text \<open>
  The handlers of \<^verbatim>\<open>src/index.js\<close> read properties of the parsed JSON body and a
  request header and compare them with \<^verbatim>\<open>===\<close>. A property that is missing reads as
  \<^verbatim>\<open>undefined\<close>. A number is the real number its double stands for (the two zeros are
  one value and JSON has no \<^verbatim>\<open>NaN\<close>); the infinities that an overflowing literal
  parses to are left out.
\<close>

datatype jsval =
    JUndefined
  | JNull
  | JBool bool
  | JNum real
  | JStr string
  | JArray "jsval list"
  | JObject "(string \<times> jsval) list"

text \<open>
  Strict equality \<^verbatim>\<open>a === b\<close> between a stored value and a value taken from the
  current request. Primitives compare by value. Arrays and objects compare by
  reference, and every request is parsed into objects of its own, so an array or
  object of the current request is never the stored one.
\<close>

fun strict_eq :: "jsval \<Rightarrow> jsval \<Rightarrow> bool" where
  "strict_eq JUndefined JUndefined = True"
| "strict_eq JNull JNull = True"
| "strict_eq (JBool a) (JBool b) = (a = b)"
| "strict_eq (JNum a) (JNum b) = (a = b)"
| "strict_eq (JStr a) (JStr b) = (a = b)"
| "strict_eq _ _ = False"

fun primitive :: "jsval \<Rightarrow> bool" where
  "primitive (JArray _) = False"
| "primitive (JObject _) = False"
| "primitive _ = True"

text \<open>A \<^verbatim>\<open>Date\<close> object: its time value in milliseconds, or an invalid date.\<close>

datatype jsdate = Date int | InvalidDate

section \<open>Data model\<close>

text \<open>
  The object literal of \<^verbatim>\<open>app.post('/todos')\<close>:
  \<^verbatim>\<open>{ id, title, done, deadline, created_at }\<close>.
\<close>

record todo =
  t_id :: string
  t_title :: jsval
  t_done :: bool
  t_deadline :: jsdate
  t_created_at :: jsdate

text \<open>
  The property \<^verbatim>\<open>user.todo\<close>, which \<^verbatim>\<open>app.put\<close> and \<^verbatim>\<open>app.patch\<close> assign. It does
  not exist on a new user; afterwards it holds \<^verbatim>\<open>undefined\<close> or the todo that
  \<^verbatim>\<open>find\<close> returned. The todo it holds is the object of the \<^verbatim>\<open>todos\<close> array: the
  handler writes through it, so the property shows the todo as the handler
  leaves it. No handler writes to a todo without assigning it to \<^verbatim>\<open>user.todo\<close>
  first.
\<close>

datatype todo_prop = NoProp | PropUndefined | PropTodo todo

text \<open>
  The object literal of \<^verbatim>\<open>app.post('/users')\<close>: \<^verbatim>\<open>{ id, name, username, todos }\<close>,
  with the property \<^verbatim>\<open>todo\<close> that later handlers add.
\<close>

record user =
  u_id :: string
  u_name :: jsval
  u_username :: jsval
  u_todos :: "todo list"
  u_todo :: todo_prop

section \<open>Requests, responses and the environment\<close>

datatype route =
    POST_users
  | GET_todos
  | POST_todos
  | PUT_todos_id
  | PATCH_todos_id_done
  | DELETE_todos_id

text \<open>
  What a handler reads of a request: \<^verbatim>\<open>request.headers.username\<close> (a string, or
  absent), \<^verbatim>\<open>request.params.id\<close> (used by the routes with \<^verbatim>\<open>:id\<close>) and the
  properties of \<^verbatim>\<open>request.body\<close>, the object that \<^verbatim>\<open>express.json()\<close> leaves there.
\<close>

record request =
  route :: route
  headers_username :: "string option"
  params_id :: string
  body :: "string \<rightharpoonup> jsval"

text \<open>
  What the runtime gives a handler: the result of its call \<^verbatim>\<open>uuidv4()\<close>, the
  clock reading \<^verbatim>\<open>new Date()\<close>, and the constructor \<^verbatim>\<open>new Date(v)\<close>. The
  constructor converts its argument to a primitive first and throws a
  \<^verbatim>\<open>TypeError\<close> when that fails, as it does for an object whose \<^verbatim>\<open>toString\<close> is not
  a function; otherwise it returns a date, which may be invalid.
\<close>

datatype js_error = TypeError

record env =
  uuidv4 :: string
  now :: jsdate
  newDate :: "jsval \<Rightarrow> js_error + jsdate"

text \<open>
  The three messages of the source: \<^verbatim>\<open>'Usuario nao encontrado!'\<close>,
  \<^verbatim>\<open>'Usuario ja cadastrado!'\<close> and \<^verbatim>\<open>'TODO nao encontrado!'\<close> (written there with
  their accents).
\<close>

datatype error_message = UserNotFound | UserAlreadyExists | TodoNotFound

text \<open>
  What a response carries. \<open>ErrorPage\<close> is the page of the default error handler of
  Express, which answers an exception thrown inside a handler with status 500; the
  application registers no error handler of its own.
\<close>

datatype payload =
    NoBody
  | ErrorPage
  | ErrorJson error_message
  | UserJson user
  | TodoJson todo
  | TodosJson "todo list"

record response =
  status :: nat
  payload :: payload

text \<open>Reading a property of the body: \<^verbatim>\<open>undefined\<close> when it is missing.\<close>

definition property :: "(string \<rightharpoonup> jsval) \<Rightarrow> string \<Rightarrow> jsval" where
  "property b k = (case b k of None \<Rightarrow> JUndefined | Some v \<Rightarrow> v)"

text \<open>Reading the header: \<^verbatim>\<open>undefined\<close> when it is absent, a string otherwise.\<close>

definition header :: "string option \<Rightarrow> jsval" where
  "header h = (case h of None \<Rightarrow> JUndefined | Some s \<Rightarrow> JStr s)"

text \<open>
  \<^verbatim>\<open>Array.prototype.findIndex\<close>: the position of the first element that satisfies
  the predicate; \<open>None\<close> stands for \<^verbatim>\<open>-1\<close>. \<^verbatim>\<open>Array.prototype.find\<close> returns a
  reference to that element (\<^verbatim>\<open>undefined\<close> when there is none); where the
  handler writes through the reference, the model takes the position, so that
  the write lands in the array.
\<close>

fun findIndex :: "('a \<Rightarrow> bool) \<Rightarrow> 'a list \<Rightarrow> nat option" where
  "findIndex P [] = None"
| "findIndex P (x # xs) = (if P x then Some 0 else map_option Suc (findIndex P xs))"

text \<open>\<^verbatim>\<open>xs.splice(i, 1)\<close> for a position inside the array.\<close>

definition splice1 :: "nat \<Rightarrow> 'a list \<Rightarrow> 'a list" where
  "splice1 i xs = take i xs @ drop (Suc i) xs"

section \<open>The middleware and the handlers\<close>

text \<open>
  \<^verbatim>\<open>checksExistsUserAccount\<close>: either the response that ends the request, or the
  position of the user that becomes \<^verbatim>\<open>request.user\<close>.
\<close>

definition checksExistsUserAccount :: "user list \<Rightarrow> request \<Rightarrow> response + nat" where
  "checksExistsUserAccount users request =
     (let username = header (headers_username request) in
      case findIndex (\<lambda>user. strict_eq (u_username user) username) users of
        None \<Rightarrow> Inl \<lparr>status = 400, payload = ErrorJson UserNotFound\<rparr>
      | Some i \<Rightarrow> Inr i)"

definition post_users :: "env \<Rightarrow> request \<Rightarrow> user list \<Rightarrow> response \<times> user list" where
  "post_users e request users =
     (let name = property (body request) ''name'';
          username = property (body request) ''username''
      in case find (\<lambda>user. strict_eq (u_username user) username) users of
        Some usernameAlreadyExists \<Rightarrow>
          (\<lparr>status = 400, payload = ErrorJson UserAlreadyExists\<rparr>, users)
      | None \<Rightarrow>
          (let user = \<lparr>u_id = uuidv4 e, u_name = name, u_username = username,
                       u_todos = [], u_todo = NoProp\<rparr>
           in (\<lparr>status = 201, payload = UserJson user\<rparr>, users @ [user])))"

definition get_todos :: "env \<Rightarrow> nat \<Rightarrow> request \<Rightarrow> user list \<Rightarrow> response \<times> user list" where
  "get_todos e i request users =
     (let user = users ! i
      in (\<lparr>status = 200, payload = TodosJson (u_todos user)\<rparr>, users))"

text \<open>
  \<^verbatim>\<open>app.post('/todos')\<close>. The object literal calls \<^verbatim>\<open>new Date(deadline)\<close> before
  \<^verbatim>\<open>user.todos.push(todo)\<close>: when the constructor throws, nothing is pushed.
\<close>

definition post_todos :: "env \<Rightarrow> nat \<Rightarrow> request \<Rightarrow> user list \<Rightarrow> response \<times> user list" where
  "post_todos e i request users =
     (let user = users ! i;
          title = property (body request) ''title'';
          deadline = property (body request) ''deadline''
      in case newDate e deadline of
        Inl TypeError \<Rightarrow> (\<lparr>status = 500, payload = ErrorPage\<rparr>, users)
      | Inr date \<Rightarrow>
          (let todo = \<lparr>t_id = uuidv4 e, t_title = title, t_done = False,
                       t_deadline = date, t_created_at = now e\<rparr>
           in (\<lparr>status = 201, payload = TodoJson todo\<rparr>,
               users[i := user\<lparr>u_todos := u_todos user @ [todo]\<rparr>])))"

text \<open>
  \<^verbatim>\<open>app.put('/todos/:id')\<close>. The handler assigns \<^verbatim>\<open>user.todo\<close>, then \<^verbatim>\<open>todo.title\<close>, then
  calls \<^verbatim>\<open>new Date(deadline)\<close>: when the constructor throws, the title is already
  written and the deadline is not.
\<close>

definition put_todos :: "env \<Rightarrow> nat \<Rightarrow> request \<Rightarrow> user list \<Rightarrow> response \<times> user list" where
  "put_todos e i request users =
     (let user = users ! i;
          title = property (body request) ''title'';
          deadline = property (body request) ''deadline'';
          id = params_id request
      in case findIndex (\<lambda>todo. t_id todo = id) (u_todos user) of
        None \<Rightarrow>
          (\<lparr>status = 404, payload = ErrorJson TodoNotFound\<rparr>,
           users[i := user\<lparr>u_todo := PropUndefined\<rparr>])
      | Some k \<Rightarrow>
          (case newDate e deadline of
             Inl TypeError \<Rightarrow>
               (let todo = (u_todos user ! k)\<lparr>t_title := title\<rparr>
                in (\<lparr>status = 500, payload = ErrorPage\<rparr>,
                    users[i := user\<lparr>u_todos := (u_todos user)[k := todo],
                                     u_todo := PropTodo todo\<rparr>]))
           | Inr date \<Rightarrow>
               (let todo = (u_todos user ! k)\<lparr>t_title := title, t_deadline := date\<rparr>
                in (\<lparr>status = 200, payload = TodoJson todo\<rparr>,
                    users[i := user\<lparr>u_todos := (u_todos user)[k := todo],
                                     u_todo := PropTodo todo\<rparr>]))))"

definition patch_todos_done :: "env \<Rightarrow> nat \<Rightarrow> request \<Rightarrow> user list \<Rightarrow> response \<times> user list" where
  "patch_todos_done e i request users =
     (let user = users ! i;
          id = params_id request
      in case findIndex (\<lambda>todo. t_id todo = id) (u_todos user) of
        None \<Rightarrow>
          (\<lparr>status = 404, payload = ErrorJson TodoNotFound\<rparr>,
           users[i := user\<lparr>u_todo := PropUndefined\<rparr>])
      | Some k \<Rightarrow>
          (let todo = (u_todos user ! k)\<lparr>t_done := True\<rparr>
           in (\<lparr>status = 200, payload = TodoJson todo\<rparr>,
               users[i := user\<lparr>u_todos := (u_todos user)[k := todo], u_todo := PropTodo todo\<rparr>])))"

definition delete_todos :: "env \<Rightarrow> nat \<Rightarrow> request \<Rightarrow> user list \<Rightarrow> response \<times> user list" where
  "delete_todos e i request users =
     (let user = users ! i;
          id = params_id request
      in case findIndex (\<lambda>todo. t_id todo = id) (u_todos user) of
        None \<Rightarrow> (\<lparr>status = 404, payload = ErrorJson TodoNotFound\<rparr>, users)
      | Some todoIndex \<Rightarrow>
          (\<lparr>status = 204, payload = NoBody\<rparr>,
           users[i := user\<lparr>u_todos := splice1 todoIndex (u_todos user)\<rparr>]))"

text \<open>
  A route registered as \<^verbatim>\<open>app.METHOD(path, checksExistsUserAccount, handler)\<close>: the
  handler runs only when the middleware calls \<^verbatim>\<open>next()\<close>.
\<close>

definition guarded ::
  "(env \<Rightarrow> nat \<Rightarrow> request \<Rightarrow> user list \<Rightarrow> response \<times> user list) \<Rightarrow>
   env \<Rightarrow> request \<Rightarrow> user list \<Rightarrow> response \<times> user list" where
  "guarded handler e request users =
     (case checksExistsUserAccount users request of
        Inl response \<Rightarrow> (response, users)
      | Inr i \<Rightarrow> handler e i request users)"

definition app :: "env \<Rightarrow> request \<Rightarrow> user list \<Rightarrow> response \<times> user list" where
  "app e request users =
     (case route request of
        POST_users \<Rightarrow> post_users e request users
      | GET_todos \<Rightarrow> guarded get_todos e request users
      | POST_todos \<Rightarrow> guarded post_todos e request users
      | PUT_todos_id \<Rightarrow> guarded put_todos e request users
      | PATCH_todos_id_done \<Rightarrow> guarded patch_todos_done e request users
      | DELETE_todos_id \<Rightarrow> guarded delete_todos e request users)"

text \<open>
  The store starts as \<^verbatim>\<open>const users = []\<close>; a reachable store is what a sequence
  of requests, each with its environment, leaves behind.
\<close>

fun run :: "(env \<times> request) list \<Rightarrow> user list \<Rightarrow> user list" where
  "run [] users = users"
| "run ((e, request) # rest) users = run rest (snd (app e request users))"

text \<open>The object literal that \<^verbatim>\<open>app.post('/todos')\<close> builds.\<close>

abbreviation created_todo :: "env \<Rightarrow> request \<Rightarrow> jsdate \<Rightarrow> todo" where
  "created_todo e request date \<equiv>
     \<lparr>t_id = uuidv4 e, t_title = property (body request) ''title'', t_done = False,
      t_deadline = date, t_created_at = now e\<rparr>"

text \<open>
  The todos that a \<^verbatim>\<open>POST /todos\<close> of a resolved user adds: the one it builds, or
  none when \<^verbatim>\<open>new Date(deadline)\<close> throws.
\<close>

definition added :: "env \<times> request \<Rightarrow> todo list" where
  "added c =
     (case newDate (fst c) (property (body (snd c)) ''deadline'') of
        Inl TypeError \<Rightarrow> []
      | Inr date \<Rightarrow> [created_todo (fst c) (snd c) date])"

text \<open>The object literal that \<^verbatim>\<open>app.post('/users')\<close> builds.\<close>

abbreviation created_user :: "env \<Rightarrow> request \<Rightarrow> user" where
  "created_user e request \<equiv>
     \<lparr>u_id = uuidv4 e, u_name = property (body request) ''name'',
      u_username = property (body request) ''username'', u_todos = [], u_todo = NoProp\<rparr>"

section \<open>Sample requests\<close>

text \<open>
  Concrete requests and stores on which the theorems below are run.

  The sample \<^verbatim>\<open>Date\<close> constructor follows JavaScript on \<^verbatim>\<open>undefined\<close> (an invalid date),
  \<^verbatim>\<open>null\<close> (time value 0), booleans (0 and 1), numbers (truncated towards zero, invalid
  beyond 8.64e15 milliseconds), the date string \<^verbatim>\<open>2024-01-01\<close>, and objects: an object
  with a property \<^verbatim>\<open>toString\<close> of its own has no callable \<^verbatim>\<open>toString\<close> and its
  \<^verbatim>\<open>valueOf\<close> returns no primitive, so the conversion throws; any other object
  converts to \<^verbatim>\<open>[object Object]\<close>, which is no date. Other strings and arrays go
  through the date parser of the engine; the samples send none, and the sample
  constructor gives an invalid date for them.
\<close>

fun sample_newDate :: "jsval \<Rightarrow> js_error + jsdate" where
  "sample_newDate JUndefined = Inr InvalidDate"
| "sample_newDate JNull = Inr (Date 0)"
| "sample_newDate (JBool b) = Inr (Date (if b then 1 else 0))"
| "sample_newDate (JNum r) =
     Inr (if \<bar>r\<bar> \<le> 8640000000000000
          then Date (if 0 \<le> r then \<lfloor>r\<rfloor> else \<lceil>r\<rceil>) else InvalidDate)"
| "sample_newDate (JStr s) =
     Inr (if s = ''2024-01-01'' then Date 1704067200000 else InvalidDate)"
| "sample_newDate (JArray xs) = Inr InvalidDate"
| "sample_newDate (JObject kvs) =
     (if ''toString'' \<in> set (map fst kvs) then Inl TypeError else Inr InvalidDate)"

definition sample_env :: "string \<Rightarrow> int \<Rightarrow> env" where
  "sample_env u t = \<lparr>uuidv4 = u, now = Date t, newDate = sample_newDate\<rparr>"

definition create_ana :: request where
  "create_ana = \<lparr>route = POST_users, headers_username = None, params_id = [],
     body = [''name'' \<mapsto> JStr ''Ana'', ''username'' \<mapsto> JStr ''ana'']\<rparr>"

definition as_ana :: "route \<Rightarrow> string \<Rightarrow> (string \<rightharpoonup> jsval) \<Rightarrow> request" where
  "as_ana r i b = \<lparr>route = r, headers_username = Some ''ana'', params_id = i, body = b\<rparr>"

definition milk :: "string \<rightharpoonup> jsval" where
  "milk = [''title'' \<mapsto> JStr ''buy milk'', ''deadline'' \<mapsto> JStr ''2024-01-01'']"

definition bread :: "string \<rightharpoonup> jsval" where
  "bread = [''title'' \<mapsto> JStr ''buy bread'']"

definition eggs :: "string \<rightharpoonup> jsval" where
  "eggs = [''title'' \<mapsto> JStr ''buy eggs'',
           ''deadline'' \<mapsto> JObject [(''toString'', JNum 1), (''valueOf'', JNum 1)]]"

definition no_fields :: "string \<rightharpoonup> jsval" where
  "no_fields = Map.empty"

definition ana_store :: "user list" where
  "ana_store = run [(sample_env ''u1'' 10, create_ana)] []"

definition ana_two_todos :: "user list" where
  "ana_two_todos = run [(sample_env ''t1'' 20, as_ana POST_todos [] milk),
                        (sample_env ''t2'' 30, as_ana POST_todos [] bread)] ana_store"

definition milk_todo :: todo where
  "milk_todo = \<lparr>t_id = ''t1'', t_title = JStr ''buy milk'', t_done = False,
     t_deadline = Date 1704067200000, t_created_at = Date 20\<rparr>"

definition bread_todo :: todo where
  "bread_todo = \<lparr>t_id = ''t2'', t_title = JStr ''buy bread'', t_done = False,
     t_deadline = InvalidDate, t_created_at = Date 30\<rparr>"

definition ana :: "todo list \<Rightarrow> todo_prop \<Rightarrow> user" where
  "ana ts p = \<lparr>u_id = ''u1'', u_name = JStr ''Ana'', u_username = JStr ''ana'',
     u_todos = ts, u_todo = p\<rparr>"

definition create_object :: request where
  "create_object = \<lparr>route = POST_users, headers_username = None, params_id = [],
     body = [''name'' \<mapsto> JStr ''Bob'', ''username'' \<mapsto> JObject []]\<rparr>"

definition bob :: "string \<Rightarrow> user" where
  "bob u = \<lparr>u_id = u, u_name = JStr ''Bob'', u_username = JObject [],
     u_todos = [], u_todo = NoProp\<rparr>"

definition object_store :: "user list" where
  "object_store = run [(sample_env ''u1'' 10, create_object)] []"

definition create_nameless :: request where
  "create_nameless = \<lparr>route = POST_users, headers_username = None, params_id = [],
     body = no_fields\<rparr>"

definition no_header :: "route \<Rightarrow> string \<Rightarrow> (string \<rightharpoonup> jsval) \<Rightarrow> request" where
  "no_header r i b = \<lparr>route = r, headers_username = None, params_id = i, body = b\<rparr>"

definition nameless_store :: "user list" where
  "nameless_store = run [(sample_env ''u1'' 10, create_nameless)] []"

definition as_bob :: "route \<Rightarrow> string \<Rightarrow> (string \<rightharpoonup> jsval) \<Rightarrow> request" where
  "as_bob r i b = \<lparr>route = r, headers_username = Some ''bob'', params_id = i, body = b\<rparr>"

definition nameless :: user where
  "nameless = \<lparr>u_id = ''u1'', u_name = JUndefined, u_username = JUndefined,
     u_todos = [], u_todo = NoProp\<rparr>"


definition ana_one_todo :: "(env \<times> request) list" where
  "ana_one_todo = [(sample_env ''u1'' 10, create_ana),
                   (sample_env ''t1'' 20, as_ana POST_todos [] milk)]"

section \<open>Properties of a step\<close>

text \<open>
  How one request may change the \<^verbatim>\<open>todos\<close> of a user: the entries stay in place,
  keep their ids and no \<^verbatim>\<open>done\<close> goes from true to false; or one entry is added
  at the end; or one entry is taken out.
\<close>

definition todos_step :: "todo list \<Rightarrow> todo list \<Rightarrow> bool" where
  "todos_step ts ts' \<longleftrightarrow>
     (length ts' = length ts \<and>
      (\<forall>j < length ts. t_id (ts' ! j) = t_id (ts ! j) \<and> (t_done (ts ! j) \<longrightarrow> t_done (ts' ! j)))) \<or>
     (\<exists>todo. ts' = ts @ [todo]) \<or>
     (\<exists>j < length ts. ts' = take j ts @ drop (Suc j) ts)"

text \<open>The ids of all todos in the store.\<close>

definition todo_ids :: "user list \<Rightarrow> string set" where
  "todo_ids users = (\<Union>user \<in> set users. t_id ` set (u_todos user))"

section \<open>Basic facts\<close>

lemma findIndex_None: "findIndex P xs = None \<longleftrightarrow> (\<forall>x \<in> set xs. \<not> P x)"
  by (induction xs) auto

lemma findIndex_Some:
  "findIndex P xs = Some k \<Longrightarrow> k < length xs \<and> P (xs ! k) \<and> (\<forall>j < k. \<not> P (xs ! j))"
proof (induction xs arbitrary: k)
  case Nil
  then show ?case by simp
next
  case (Cons x xs)
  show ?case
  proof (cases "P x")
    case True
    with Cons.prems show ?thesis by simp
  next
    case False
    with Cons.prems obtain k' where k': "findIndex P xs = Some k'" "k = Suc k'"
      by auto
    from Cons.IH [OF k'(1)] False k'(2) show ?thesis
      by (auto simp: less_Suc_eq_0_disj)
  qed
qed

lemma findIndex_map: "findIndex P (map f xs) = findIndex (\<lambda>x. P (f x)) xs"
  by (induction xs) auto

lemma checks_Inr:
  "checksExistsUserAccount users request = Inr i \<Longrightarrow>
     i < length users \<and> strict_eq (u_username (users ! i)) (header (headers_username request))
     \<and> (\<forall>j < i. \<not> strict_eq (u_username (users ! j)) (header (headers_username request)))"
  by (auto simp: checksExistsUserAccount_def dest: findIndex_Some split: option.splits)

lemma checks_Inl:
  "checksExistsUserAccount users request = Inl response \<longleftrightarrow>
     response = \<lparr>status = 400, payload = ErrorJson UserNotFound\<rparr> \<and>
     (\<forall>user \<in> set users. \<not> strict_eq (u_username user) (header (headers_username request)))"
proof (cases "findIndex (\<lambda>user. strict_eq (u_username user) (header (headers_username request))) users")
  case None
  then have "\<forall>user \<in> set users. \<not> strict_eq (u_username user) (header (headers_username request))"
    by (simp add: findIndex_None)
  with None show ?thesis
    by (auto simp: checksExistsUserAccount_def)
next
  case (Some k)
  from findIndex_Some [OF Some]
  have "\<exists>user \<in> set users. strict_eq (u_username user) (header (headers_username request))"
    by (auto intro: nth_mem)
  with Some show ?thesis
    by (auto simp: checksExistsUserAccount_def)
qed

lemma checks_usernames:
  "map u_username users' = map u_username users \<Longrightarrow>
     checksExistsUserAccount users' request = checksExistsUserAccount users request"
proof -
  assume eq: "map u_username users' = map u_username users"
  have "findIndex (\<lambda>user. strict_eq (u_username user) v) us
        = findIndex (\<lambda>n. strict_eq n v) (map u_username us)" for v us
    by (simp add: findIndex_map)
  from this [of _ users'] this [of _ users] eq show ?thesis
    by (simp add: checksExistsUserAccount_def)
qed

lemma strict_eq_iff: "strict_eq a b \<longleftrightarrow> a = b \<and> primitive a"
  by (cases a; cases b) auto

lemmas handler_defs =
  get_todos_def post_todos_def put_todos_def patch_todos_done_def delete_todos_def

lemma map_update_same: "(map f xs)[k := f (xs ! k)] = map f xs"
  by (metis list_update_id map_update)

lemma handler_usernames:
  assumes "h \<in> {get_todos, post_todos, put_todos, patch_todos_done, delete_todos}"
  shows "map u_username (snd (h e i request users)) = map u_username users"
  using assms
  by (auto simp: handler_defs Let_def map_update map_update_same
      split: option.splits sum.splits js_error.splits)

lemma guarded_usernames:
  assumes "h \<in> {get_todos, post_todos, put_todos, patch_todos_done, delete_todos}"
  shows "map u_username (snd (guarded h e request users)) = map u_username users"
  using handler_usernames [OF assms] by (simp add: guarded_def split: sum.splits)

lemma app_usernames:
  "route request \<noteq> POST_users \<Longrightarrow>
     map u_username (snd (app e request users)) = map u_username users"
  by (cases "route request") (simp_all add: app_def guarded_usernames)

lemma guarded_resolved:
  "checksExistsUserAccount users request = Inr i \<Longrightarrow>
     guarded h e request users = h e i request users"
  by (simp add: guarded_def)

lemma guarded_rejected:
  "\<forall>user \<in> set users. \<not> strict_eq (u_username user) (header (headers_username request)) \<Longrightarrow>
     guarded h e request users = (\<lparr>status = 400, payload = ErrorJson UserNotFound\<rparr>, users)"
proof -
  assume "\<forall>user \<in> set users. \<not> strict_eq (u_username user) (header (headers_username request))"
  then have "checksExistsUserAccount users request
             = Inl \<lparr>status = 400, payload = ErrorJson UserNotFound\<rparr>"
    by (simp add: checks_Inl)
  then show ?thesis by (simp add: guarded_def)
qed

lemmas sample_defs = sample_env_def create_ana_def as_ana_def milk_def bread_def no_fields_def
  ana_store_def ana_two_todos_def

lemmas eval_defs = app_def guarded_def checksExistsUserAccount_def post_users_def handler_defs
  property_def header_def splice1_def Let_def


lemma post_todos_created:
  assumes "route request = POST_todos" "checksExistsUserAccount users request = Inr i"
    and "newDate e (property (body request) ''deadline'') = Inr date"
  shows "app e request users =
     (\<lparr>status = 201, payload = TodoJson (created_todo e request date)\<rparr>,
      users[i := (users ! i)\<lparr>u_todos := u_todos (users ! i) @ [created_todo e request date]\<rparr>])"
  using assms by (simp add: app_def guarded_def post_todos_def Let_def)

lemma post_todos_thrown:
  assumes "route request = POST_todos" "checksExistsUserAccount users request = Inr i"
    and "newDate e (property (body request) ''deadline'') = Inl err"
  shows "app e request users = (\<lparr>status = 500, payload = ErrorPage\<rparr>, users)"
  using assms by (cases err) (simp add: app_def guarded_def post_todos_def Let_def)

lemma post_todos_added:
  assumes "route request = POST_todos" "checksExistsUserAccount users request = Inr i"
  shows "snd (app e request users) =
     users[i := (users ! i)\<lparr>u_todos := u_todos (users ! i) @ added (e, request)\<rparr>]"
proof (cases "newDate e (property (body request) ''deadline'')")
  case (Inl err)
  then have "added (e, request) = []"
    by (cases err) (simp add: added_def)
  with post_todos_thrown [OF assms Inl] show ?thesis
    by simp
next
  case (Inr date)
  then have "added (e, request) = [created_todo e request date]"
    by (simp add: added_def)
  with post_todos_created [OF assms Inr] show ?thesis
    by simp
qed


lemma findIndex_absent:
  "\<forall>todo \<in> set ts. t_id todo \<noteq> ident \<Longrightarrow> findIndex (\<lambda>todo. t_id todo = ident) ts = None"
  by (simp add: findIndex_None)

lemma findIndex_present:
  assumes "\<exists>todo \<in> set ts. t_id todo = ident"
  obtains k where "findIndex (\<lambda>todo. t_id todo = ident) ts = Some k" "k < length ts"
    "t_id (ts ! k) = ident" "\<forall>j < k. t_id (ts ! j) \<noteq> ident"
proof -
  from assms have "findIndex (\<lambda>todo. t_id todo = ident) ts \<noteq> None"
    by (simp add: findIndex_None)
  then obtain k where k: "findIndex (\<lambda>todo. t_id todo = ident) ts = Some k"
    by auto
  from findIndex_Some [OF k] k that show thesis
    by simp
qed

lemma put_missing:
  assumes "route request = PUT_todos_id" "checksExistsUserAccount users request = Inr i"
    and "findIndex (\<lambda>todo. t_id todo = params_id request) (u_todos (users ! i)) = None"
  shows "app e request users =
     (\<lparr>status = 404, payload = ErrorJson TodoNotFound\<rparr>,
      users[i := (users ! i)\<lparr>u_todo := PropUndefined\<rparr>])"
  using assms by (simp add: app_def guarded_def put_todos_def Let_def)

lemma put_found:
  assumes "route request = PUT_todos_id" "checksExistsUserAccount users request = Inr i"
    and "findIndex (\<lambda>todo. t_id todo = params_id request) (u_todos (users ! i)) = Some k"
    and "newDate e (property (body request) ''deadline'') = Inr date"
  shows "app e request users =
     (\<lparr>status = 200,
       payload = TodoJson ((u_todos (users ! i) ! k)
          \<lparr>t_title := property (body request) ''title'', t_deadline := date\<rparr>)\<rparr>,
      users[i := (users ! i)
        \<lparr>u_todos := (u_todos (users ! i))[k := (u_todos (users ! i) ! k)
            \<lparr>t_title := property (body request) ''title'', t_deadline := date\<rparr>],
         u_todo := PropTodo ((u_todos (users ! i) ! k)
            \<lparr>t_title := property (body request) ''title'', t_deadline := date\<rparr>)\<rparr>])"
  using assms by (simp add: app_def guarded_def put_todos_def Let_def)

lemma put_thrown:
  assumes "route request = PUT_todos_id" "checksExistsUserAccount users request = Inr i"
    and "findIndex (\<lambda>todo. t_id todo = params_id request) (u_todos (users ! i)) = Some k"
    and "newDate e (property (body request) ''deadline'') = Inl err"
  shows "app e request users =
     (\<lparr>status = 500, payload = ErrorPage\<rparr>,
      users[i := (users ! i)
        \<lparr>u_todos := (u_todos (users ! i))[k := (u_todos (users ! i) ! k)
            \<lparr>t_title := property (body request) ''title''\<rparr>],
         u_todo := PropTodo ((u_todos (users ! i) ! k)
            \<lparr>t_title := property (body request) ''title''\<rparr>)\<rparr>])"
  using assms by (cases err) (simp add: app_def guarded_def put_todos_def Let_def)

lemma patch_missing:
  assumes "route request = PATCH_todos_id_done" "checksExistsUserAccount users request = Inr i"
    and "findIndex (\<lambda>todo. t_id todo = params_id request) (u_todos (users ! i)) = None"
  shows "app e request users =
     (\<lparr>status = 404, payload = ErrorJson TodoNotFound\<rparr>,
      users[i := (users ! i)\<lparr>u_todo := PropUndefined\<rparr>])"
  using assms by (simp add: app_def guarded_def patch_todos_done_def Let_def)

lemma patch_found:
  assumes "route request = PATCH_todos_id_done" "checksExistsUserAccount users request = Inr i"
    and "findIndex (\<lambda>todo. t_id todo = params_id request) (u_todos (users ! i)) = Some k"
  shows "app e request users =
     (\<lparr>status = 200, payload = TodoJson ((u_todos (users ! i) ! k)\<lparr>t_done := True\<rparr>)\<rparr>,
      users[i := (users ! i)
        \<lparr>u_todos := (u_todos (users ! i))[k := (u_todos (users ! i) ! k)\<lparr>t_done := True\<rparr>],
         u_todo := PropTodo ((u_todos (users ! i) ! k)\<lparr>t_done := True\<rparr>)\<rparr>])"
  using assms by (simp add: app_def guarded_def patch_todos_done_def Let_def)

lemma delete_missing:
  assumes "route request = DELETE_todos_id" "checksExistsUserAccount users request = Inr i"
    and "findIndex (\<lambda>todo. t_id todo = params_id request) (u_todos (users ! i)) = None"
  shows "app e request users = (\<lparr>status = 404, payload = ErrorJson TodoNotFound\<rparr>, users)"
  using assms by (simp add: app_def guarded_def delete_todos_def Let_def)

lemma delete_found:
  assumes "route request = DELETE_todos_id" "checksExistsUserAccount users request = Inr i"
    and "findIndex (\<lambda>todo. t_id todo = params_id request) (u_todos (users ! i)) = Some k"
  shows "app e request users =
     (\<lparr>status = 204, payload = NoBody\<rparr>,
      users[i := (users ! i)
        \<lparr>u_todos := take k (u_todos (users ! i)) @ drop (Suc k) (u_todos (users ! i))\<rparr>])"
  using assms by (simp add: app_def guarded_def delete_todos_def splice1_def Let_def)

lemma todos_step_refl: "todos_step ts ts"
  by (simp add: todos_step_def)

lemma todos_step_update:
  "k < length ts \<Longrightarrow> t_id todo = t_id (ts ! k) \<Longrightarrow> (t_done (ts ! k) \<longrightarrow> t_done todo) \<Longrightarrow>
     todos_step ts (ts[k := todo])"
  by (auto simp: todos_step_def nth_list_update)

lemma step_intro:
  "us' = users[i := user] \<Longrightarrow> todos_step ts ts' \<Longrightarrow> u_todos user = ts' \<Longrightarrow>
     \<exists>user. us' = users[i := user] \<and> todos_step ts (u_todos user)"
  by blast

lemma handler_step:
  assumes "h \<in> {get_todos, post_todos, put_todos, patch_todos_done, delete_todos}"
    and "i < length users"
  shows "\<exists>user. snd (h e i request users) = users[i := user] \<and>
           todos_step (u_todos (users ! i)) (u_todos user)"
proof -
  let ?ts = "u_todos (users ! i)"
  let ?find = "findIndex (\<lambda>todo. t_id todo = params_id request) ?ts"
  have keep: "\<exists>user. users = users[i := user] \<and> todos_step ?ts (u_todos user)"
    by (rule step_intro [where user = "users ! i" and ts' = ?ts]) (simp_all add: todos_step_refl)
  have undef: "\<exists>user. users[i := (users ! i)\<lparr>u_todo := PropUndefined\<rparr>] = users[i := user]
                  \<and> todos_step ?ts (u_todos user)"
    by (rule step_intro [where user = "(users ! i)\<lparr>u_todo := PropUndefined\<rparr>" and ts' = ?ts])
      (simp_all add: todos_step_refl)
  from assms(1) consider "h = get_todos" | "h = post_todos" | "h = put_todos"
    | "h = patch_todos_done" | "h = delete_todos"
    by auto
  then show ?thesis
  proof cases
    case 1
    with keep show ?thesis by (simp add: get_todos_def)
  next
    case 2
    show ?thesis
    proof (cases "newDate e (property (body request) ''deadline'')")
      case (Inl err)
      then have "snd (h e i request users) = users"
        by (cases err) (simp add: 2 post_todos_def Let_def)
      with keep show ?thesis by simp
    next
      case (Inr date)
      define todo where "todo = created_todo e request date"
      have eq: "snd (h e i request users) = users[i := (users ! i)\<lparr>u_todos := ?ts @ [todo]\<rparr>]"
        by (simp add: 2 post_todos_def Let_def Inr todo_def)
      have "todos_step ?ts (?ts @ [todo])"
        unfolding todos_step_def by blast
      with eq show ?thesis
        by (rule step_intro) simp
    qed
  next
    case 3
    show ?thesis
    proof (cases ?find)
      case None
      with undef show ?thesis by (simp add: 3 put_todos_def Let_def)
    next
      case (Some k)
      from findIndex_Some [OF Some] have k: "k < length ?ts" by simp
      have "\<exists>todo. t_id todo = t_id (?ts ! k) \<and> t_done todo = t_done (?ts ! k) \<and>
          snd (h e i request users) =
            users[i := (users ! i)\<lparr>u_todos := ?ts[k := todo], u_todo := PropTodo todo\<rparr>]"
      proof (cases "newDate e (property (body request) ''deadline'')")
        case (Inl err)
        define todo where "todo = (?ts ! k)\<lparr>t_title := property (body request) ''title''\<rparr>"
        have "snd (h e i request users) =
            users[i := (users ! i)\<lparr>u_todos := ?ts[k := todo], u_todo := PropTodo todo\<rparr>]"
          using Inl by (cases err) (simp add: 3 put_todos_def Let_def Some todo_def)
        moreover have "t_id todo = t_id (?ts ! k)" "t_done todo = t_done (?ts ! k)"
          by (simp_all add: todo_def)
        ultimately show ?thesis by blast
      next
        case (Inr date)
        define todo where "todo = (?ts ! k)
            \<lparr>t_title := property (body request) ''title'', t_deadline := date\<rparr>"
        have "snd (h e i request users) =
            users[i := (users ! i)\<lparr>u_todos := ?ts[k := todo], u_todo := PropTodo todo\<rparr>]"
          by (simp add: 3 put_todos_def Let_def Some Inr todo_def)
        moreover have "t_id todo = t_id (?ts ! k)" "t_done todo = t_done (?ts ! k)"
          by (simp_all add: todo_def)
        ultimately show ?thesis by blast
      qed
      then obtain todo where todo: "t_id todo = t_id (?ts ! k)" "t_done todo = t_done (?ts ! k)"
        and eq: "snd (h e i request users) =
            users[i := (users ! i)\<lparr>u_todos := ?ts[k := todo], u_todo := PropTodo todo\<rparr>]"
        by blast
      have "todos_step ?ts (?ts[k := todo])"
        using k by (intro todos_step_update) (simp_all add: todo)
      with eq show ?thesis
        by (rule step_intro) simp
    qed
  next
    case 4
    show ?thesis
    proof (cases ?find)
      case None
      with undef show ?thesis by (simp add: 4 patch_todos_done_def Let_def)
    next
      case (Some k)
      from findIndex_Some [OF Some] have k: "k < length ?ts" by simp
      define todo where "todo = (?ts ! k)\<lparr>t_done := True\<rparr>"
      have eq: "snd (h e i request users) =
          users[i := (users ! i)\<lparr>u_todos := ?ts[k := todo], u_todo := PropTodo todo\<rparr>]"
        by (simp add: 4 patch_todos_done_def Let_def Some todo_def)
      have "todos_step ?ts (?ts[k := todo])"
        using k by (intro todos_step_update) (simp_all add: todo_def)
      with eq show ?thesis
        by (rule step_intro) simp
    qed
  next
    case 5
    show ?thesis
    proof (cases ?find)
      case None
      with keep show ?thesis by (simp add: 5 delete_todos_def Let_def)
    next
      case (Some k)
      from findIndex_Some [OF Some] have k: "k < length ?ts" by simp
      have eq: "snd (h e i request users) =
          users[i := (users ! i)\<lparr>u_todos := take k ?ts @ drop (Suc k) ?ts\<rparr>]"
        by (simp add: 5 delete_todos_def Let_def Some splice1_def)
      from k have "todos_step ?ts (take k ?ts @ drop (Suc k) ?ts)"
        unfolding todos_step_def by blast
      with eq show ?thesis
        by (rule step_intro) simp
    qed
  qed
qed

lemma guarded_step:
  assumes "h \<in> {get_todos, post_todos, put_todos, patch_todos_done, delete_todos}"
    and "n < length users"
  shows "todos_step (u_todos (users ! n)) (u_todos (snd (guarded h e request users) ! n))"
proof (cases "checksExistsUserAccount users request")
  case (Inl response)
  then show ?thesis by (simp add: guarded_def todos_step_refl)
next
  case (Inr i)
  from checks_Inr [OF Inr] have i: "i < length users" by simp
  from handler_step [OF assms(1) i, of e request] obtain user
    where user: "snd (h e i request users) = users[i := user]"
      "todos_step (u_todos (users ! i)) (u_todos user)"
    by blast
  have "snd (guarded h e request users) = users[i := user]"
    by (simp add: guarded_def Inr user(1))
  with user(2) assms(2) show ?thesis
    by (cases "n = i") (simp_all add: todos_step_refl)
qed

lemma post_users_step:
  assumes "n < length users"
  shows "snd (post_users e request users) ! n = users ! n"
  using assms by (simp add: post_users_def Let_def nth_append split: option.splits)

lemma app_step:
  assumes "n < length users"
  shows "todos_step (u_todos (users ! n)) (u_todos (snd (app e request users) ! n))"
  using assms
  by (cases "route request")
    (simp_all add: app_def guarded_step post_users_step todos_step_refl)

lemma findIndex_ids:
  "map t_id ts' = map t_id ts \<Longrightarrow>
     findIndex (\<lambda>todo. t_id todo = ident) ts' = findIndex (\<lambda>todo. t_id todo = ident) ts"
proof -
  assume eq: "map t_id ts' = map t_id ts"
  have "findIndex (\<lambda>todo. t_id todo = ident) xs = findIndex (\<lambda>x. x = ident) (map t_id xs)" for xs
    by (simp add: findIndex_map)
  from this [of ts'] this [of ts] eq show ?thesis by simp
qed

lemma patch_twice:
  assumes "route request = PATCH_todos_id_done"
    and "checksExistsUserAccount users request = Inr i"
    and "findIndex (\<lambda>todo. t_id todo = params_id request) (u_todos (users ! i)) = Some k"
  shows "app e' request (snd (app e request users)) = app e request users"
proof -
  let ?ts = "u_todos (users ! i)"
  define todo where "todo = (?ts ! k)\<lparr>t_done := True\<rparr>"
  define user where "user = (users ! i)\<lparr>u_todos := ?ts[k := todo], u_todo := PropTodo todo\<rparr>"
  from checks_Inr [OF assms(2)] have i: "i < length users" by simp
  from findIndex_Some [OF assms(3)] have k: "k < length ?ts" by simp
  have first: "app e request users = (\<lparr>status = 200, payload = TodoJson todo\<rparr>, users[i := user])"
    unfolding user_def todo_def by (rule patch_found [OF assms])
  have "map u_username (users[i := user]) = map u_username users"
    using app_usernames [of request e users] assms(1) by (simp add: first)
  from checks_usernames [OF this] assms(2)
  have resolved: "checksExistsUserAccount (users[i := user]) request = Inr i"
    by simp
  have at_i: "users[i := user] ! i = user"
    using i by simp
  have "map t_id (?ts[k := todo]) = map t_id ?ts"
    by (simp add: map_update todo_def map_update_same)
  from findIndex_ids [OF this, of "params_id request"] assms(3)
  have found': "findIndex (\<lambda>todo. t_id todo = params_id request) (?ts[k := todo]) = Some k"
    by simp
  have utodos: "u_todos (users[i := user] ! i) = ?ts[k := todo]"
    unfolding at_i by (simp add: user_def)
  have found: "findIndex (\<lambda>todo. t_id todo = params_id request) (u_todos (users[i := user] ! i)) = Some k"
    unfolding utodos by (rule found')
  have again: "(u_todos (users[i := user] ! i) ! k)\<lparr>t_done := True\<rparr> = todo"
    unfolding at_i using k by (simp add: user_def todo_def)
  have same: "(users[i := user] ! i)
        \<lparr>u_todos := (u_todos (users[i := user] ! i))[k := todo], u_todo := PropTodo todo\<rparr> = user"
    unfolding at_i by (simp add: user_def)
  have second: "app e' request (users[i := user]) =
      (\<lparr>status = 200, payload = TodoJson todo\<rparr>, (users[i := user])[i := user])"
    using patch_found [OF assms(1) resolved found, of e'] unfolding again same .
  show ?thesis
    unfolding first by (simp add: second)
qed

lemma ana_store_value: "ana_store = [ana [] NoProp]"
  by (simp add: sample_defs eval_defs ana_def)

lemma ana_two_todos_value: "ana_two_todos = [ana [milk_todo, bread_todo] NoProp]"
  by (simp add: ana_two_todos_def ana_store_value)
    (simp add: sample_env_def as_ana_def milk_def bread_def eval_defs ana_def milk_todo_def bread_todo_def)

lemma ana_resolved: "checksExistsUserAccount [ana ts p] (as_ana r ident b) = Inr 0"
  by (simp add: checksExistsUserAccount_def as_ana_def ana_def header_def)

section \<open>Users, usernames and ids\<close>

lemma find_strict_None:
  "find (\<lambda>user. strict_eq (u_username user) v) users = None \<longleftrightarrow>
     (\<forall>user \<in> set users. \<not> strict_eq (u_username user) v)"
  by (auto simp: find_None_iff)

lemma post_users_conflict:
  assumes "route request = POST_users"
    and "\<exists>user \<in> set users. strict_eq (u_username user) (property (body request) ''username'')"
  shows "app e request users = (\<lparr>status = 400, payload = ErrorJson UserAlreadyExists\<rparr>, users)"
proof -
  from assms(2)
  have "find (\<lambda>user. strict_eq (u_username user) (property (body request) ''username'')) users \<noteq> None"
    by (simp add: find_strict_None)
  then obtain u
    where "find (\<lambda>user. strict_eq (u_username user) (property (body request) ''username'')) users = Some u"
    by auto
  with assms(1) show ?thesis
    by (simp add: app_def post_users_def Let_def)
qed

lemma post_users_created:
  assumes "route request = POST_users"
    and "\<forall>user \<in> set users. \<not> strict_eq (u_username user) (property (body request) ''username'')"
  shows "app e request users =
     (\<lparr>status = 201, payload = UserJson (created_user e request)\<rparr>,
      users @ [created_user e request])"
proof -
  from assms(2)
  have "find (\<lambda>user. strict_eq (u_username user) (property (body request) ''username'')) users = None"
    by (simp add: find_strict_None)
  with assms(1) show ?thesis
    by (simp add: app_def post_users_def Let_def)
qed

lemma app_usernames_cases:
  "map u_username (snd (app e request users)) = map u_username users \<or>
   (route request = POST_users \<and>
    (\<forall>user \<in> set users. \<not> strict_eq (u_username user) (property (body request) ''username'')) \<and>
    map u_username (snd (app e request users)) =
      map u_username users @ [property (body request) ''username''])"
proof (cases "route request = POST_users")
  case False
  then show ?thesis by (simp add: app_usernames)
next
  case True
  show ?thesis
  proof (cases "\<exists>user \<in> set users. strict_eq (u_username user) (property (body request) ''username'')")
    case yes: True
    from post_users_conflict [OF True yes, of e] show ?thesis by simp
  next
    case no: False
    then have "\<forall>user \<in> set users. \<not> strict_eq (u_username user) (property (body request) ''username'')"
      by simp
    from post_users_created [OF True this, of e] this True show ?thesis by simp
  qed
qed

lemma app_distinct:
  assumes "distinct (filter primitive (map u_username users))"
  shows "distinct (filter primitive (map u_username (snd (app e request users))))"
proof -
  from app_usernames_cases [of e request users] show ?thesis
  proof
    assume "map u_username (snd (app e request users)) = map u_username users"
    with assms show ?thesis by simp
  next
    assume new: "route request = POST_users \<and>
      (\<forall>user \<in> set users. \<not> strict_eq (u_username user) (property (body request) ''username'')) \<and>
      map u_username (snd (app e request users)) =
        map u_username users @ [property (body request) ''username'']"
    then have "\<forall>user \<in> set users. u_username user = property (body request) ''username'' \<longrightarrow>
        \<not> primitive (property (body request) ''username'')"
      by (auto simp: strict_eq_iff)
    then have "primitive (property (body request) ''username'') \<longrightarrow>
        property (body request) ''username'' \<notin> set (map u_username users)"
      by auto
    with assms new show ?thesis by auto
  qed
qed

lemma run_distinct:
  "distinct (filter primitive (map u_username users)) \<Longrightarrow>
     distinct (filter primitive (map u_username (run trace users)))"
proof (induction trace arbitrary: users)
  case Nil
  then show ?case by simp
next
  case (Cons c trace)
  obtain e request where c: "c = (e, request)" by (cases c)
  from Cons.IH [OF app_distinct [OF Cons.prems, of e request]] show ?case
    by (simp add: c)
qed

lemma count_one:
  "distinct (filter P xs) \<Longrightarrow> P x \<Longrightarrow> x \<in> set xs \<Longrightarrow> length (filter (\<lambda>y. y = x) xs) = 1"
proof (induction xs)
  case Nil
  then show ?case by simp
next
  case (Cons a xs)
  show ?case
  proof (cases "a = x")
    case True
    with Cons.prems have "x \<notin> set xs" by auto
    then have "filter (\<lambda>y. y = x) xs = []"
      by (auto simp: filter_empty_conv)
    with True show ?thesis by simp
  next
    case False
    with Cons.prems have "distinct (filter P xs)" "x \<in> set xs"
      by (auto split: if_splits)
    from Cons.IH [OF this(1) Cons.prems(2) this(2)] False show ?thesis by simp
  qed
qed

lemma count_users:
  "length (filter (\<lambda>user. u_username user = v) users) =
   length (filter (\<lambda>y. y = v) (map u_username users))"
  by (induction users) auto

lemma create_twice:
  assumes "route request = POST_users" "route request' = POST_users"
    and "primitive (property (body request) ''username'')"
    and "property (body request') ''username'' = property (body request) ''username''"
    and "distinct (filter primitive (map u_username users))"
  shows "app e' request' (snd (app e request users)) =
           (\<lparr>status = 400, payload = ErrorJson UserAlreadyExists\<rparr>, snd (app e request users)) \<and>
         length (filter (\<lambda>user. u_username user = property (body request) ''username'')
           (snd (app e request users))) = 1"
proof -
  let ?u = "property (body request) ''username''"
  let ?users = "snd (app e request users)"
  have present: "?u \<in> set (map u_username ?users)"
  proof (cases "\<exists>user \<in> set users. strict_eq (u_username user) ?u")
    case True
    from True obtain user where "user \<in> set users" "u_username user = ?u"
      by (auto simp: strict_eq_iff)
    then have "?u \<in> set (map u_username users)"
      by force
    with post_users_conflict [OF assms(1) True, of e] show ?thesis
      by simp
  next
    case False
    then have "\<forall>user \<in> set users. \<not> strict_eq (u_username user) ?u" by simp
    from post_users_created [OF assms(1) this, of e] show ?thesis by simp
  qed
  then obtain user where user: "user \<in> set ?users" "u_username user = ?u"
    by auto
  with assms(3) have "strict_eq (u_username user) ?u"
    by (simp add: strict_eq_iff)
  with user(1) assms(4)
  have "\<exists>user \<in> set ?users. strict_eq (u_username user) (property (body request') ''username'')"
    by auto
  from post_users_conflict [OF assms(2) this]
  have conflict: "app e' request' ?users =
      (\<lparr>status = 400, payload = ErrorJson UserAlreadyExists\<rparr>, ?users)" .
  from app_distinct [OF assms(5), of e request]
  have "distinct (filter primitive (map u_username ?users))" .
  from count_one [OF this assms(3) present]
  have "length (filter (\<lambda>user. u_username user = ?u) ?users) = 1"
    by (simp add: count_users)
  with conflict show ?thesis by simp
qed

lemma header_cases:
  "(\<forall>user \<in> set users. \<not> strict_eq (u_username user) (header h)) \<longleftrightarrow>
     (case h of None \<Rightarrow> \<forall>user \<in> set users. u_username user \<noteq> JUndefined
              | Some s \<Rightarrow> \<forall>user \<in> set users. u_username user \<noteq> JStr s)"
  by (cases h) (auto simp: header_def strict_eq_iff)

lemma app_rejected:
  assumes "route request \<noteq> POST_users"
    and "\<forall>user \<in> set users. \<not> strict_eq (u_username user) (header (headers_username request))"
  shows "app e request users = (\<lparr>status = 400, payload = ErrorJson UserNotFound\<rparr>, users)"
  using assms(1) guarded_rejected [OF assms(2)]
  by (cases "route request") (simp_all add: app_def)

lemma checks_total:
  "\<exists>user \<in> set users. strict_eq (u_username user) (header (headers_username request)) \<Longrightarrow>
     \<exists>i. checksExistsUserAccount users request = Inr i"
proof -
  assume m: "\<exists>user \<in> set users. strict_eq (u_username user) (header (headers_username request))"
  show ?thesis
  proof (cases "checksExistsUserAccount users request")
    case (Inl response)
    with m show ?thesis by (simp add: checks_Inl)
  next
    case (Inr i)
    then show ?thesis by simp
  qed
qed

lemma app_keeps_username:
  assumes "v \<in> set (map u_username users)"
  shows "v \<in> set (map u_username (snd (app e request users)))"
proof -
  from app_usernames_cases [of e request users]
  have "\<exists>ys. map u_username (snd (app e request users)) = map u_username users @ ys"
  proof (elim disjE conjE)
    assume "map u_username (snd (app e request users)) = map u_username users"
    then have "map u_username (snd (app e request users)) = map u_username users @ []"
      by simp
    then show ?thesis ..
  next
    assume "map u_username (snd (app e request users)) =
      map u_username users @ [property (body request) ''username'']"
    then show ?thesis ..
  qed
  then obtain ys where "map u_username (snd (app e request users)) = map u_username users @ ys" ..
  then have "set (map u_username (snd (app e request users))) = set (map u_username users) \<union> set ys"
    by (simp only: set_append)
  with assms show ?thesis by blast
qed

lemma run_keeps_username:
  "v \<in> set (map u_username users) \<Longrightarrow> v \<in> set (map u_username (run trace users))"
proof (induction trace arbitrary: users)
  case Nil
  then show ?case by simp
next
  case (Cons c trace)
  obtain e request where c: "c = (e, request)" by (cases c)
  from Cons.IH [OF app_keeps_username [OF Cons.prems, of e request]] show ?case
    by (simp add: c)
qed

lemma absent_header_resolves:
  assumes "headers_username request = None"
    and "JUndefined \<in> set (map u_username users)"
  shows "\<exists>k. checksExistsUserAccount users request = Inr k \<and> u_username (users ! k) = JUndefined"
proof -
  from assms(2) obtain user where user: "user \<in> set users" "u_username user = JUndefined"
    by auto
  from user(2) assms(1) have "strict_eq (u_username user) (header (headers_username request))"
    by (simp add: header_def)
  with user(1)
  have "\<exists>user \<in> set users. strict_eq (u_username user) (header (headers_username request))"
    by blast
  from checks_total [OF this] obtain k where k: "checksExistsUserAccount users request = Inr k"
    by blast
  from checks_Inr [OF k] assms(1) have "u_username (users ! k) = JUndefined"
    by (simp add: header_def strict_eq_iff)
  with k show ?thesis by blast
qed

lemma todo_ids_update:
  "todo_ids (users[i := user]) \<subseteq> todo_ids users \<union> t_id ` set (u_todos user)"
proof -
  have "set (users[i := user]) \<subseteq> insert user (set users)"
    by (rule set_update_subset_insert)
  then show ?thesis
    unfolding todo_ids_def by blast
qed

lemma todo_ids_nth: "i < length users \<Longrightarrow> t_id ` set (u_todos (users ! i)) \<subseteq> todo_ids users"
  unfolding todo_ids_def using nth_mem by blast

lemma ids_step:
  assumes "i < length users"
    and "t_id ` set (u_todos user) \<subseteq> t_id ` set (u_todos (users ! i)) \<union> X"
  shows "todo_ids (users[i := user]) \<subseteq> todo_ids users \<union> X"
  using todo_ids_update [of users i user] todo_ids_nth [OF assms(1)] assms(2) by blast

lemma ids_update:
  "k < length ts \<Longrightarrow> t_id todo = t_id (ts ! k) \<Longrightarrow> t_id ` set (ts[k := todo]) \<subseteq> t_id ` set ts"
proof -
  assume k: "k < length ts" and same: "t_id todo = t_id (ts ! k)"
  have "set (ts[k := todo]) \<subseteq> insert todo (set ts)"
    by (rule set_update_subset_insert)
  then have "t_id ` set (ts[k := todo]) \<subseteq> insert (t_id todo) (t_id ` set ts)"
    by blast
  moreover from k have "t_id (ts ! k) \<in> t_id ` set ts"
    by simp
  ultimately show ?thesis using same by auto
qed

lemma ids_splice: "t_id ` set (take k ts @ drop (Suc k) ts) \<subseteq> t_id ` set ts"
proof -
  have "set (take k ts @ drop (Suc k) ts) \<subseteq> set ts"
    using set_take_subset [of k ts] set_drop_subset [of "Suc k" ts] by auto
  then show ?thesis by blast
qed

lemma todo_ids_append: "todo_ids (users @ [user]) = todo_ids users \<union> t_id ` set (u_todos user)"
  unfolding todo_ids_def by auto

lemma app_ids:
  "todo_ids (snd (app e request users)) \<subseteq>
     todo_ids users \<union> (if route request = POST_todos then {uuidv4 e} else {})"
proof (cases "route request = POST_users")
  case True
  show ?thesis
  proof (cases "\<exists>user \<in> set users. strict_eq (u_username user) (property (body request) ''username'')")
    case yes: True
    from post_users_conflict [OF True yes, of e] show ?thesis by simp
  next
    case False
    then have "\<forall>user \<in> set users. \<not> strict_eq (u_username user) (property (body request) ''username'')"
      by simp
    from post_users_created [OF True this, of e] show ?thesis
      by (simp add: todo_ids_append)
  qed
next
  case False
  show ?thesis
  proof (cases "checksExistsUserAccount users request")
    case (Inl response)
    then have "\<forall>user \<in> set users. \<not> strict_eq (u_username user) (header (headers_username request))"
      by (simp add: checks_Inl)
    from app_rejected [OF False this, of e] show ?thesis by simp
  next
    case (Inr i)
    from checks_Inr [OF Inr] have i: "i < length users" by simp
    let ?ts = "u_todos (users ! i)"
    let ?find = "findIndex (\<lambda>todo. t_id todo = params_id request) ?ts"
    have keep: "todo_ids (users[i := user]) \<subseteq> todo_ids users"
      if "t_id ` set (u_todos user) \<subseteq> t_id ` set ?ts" for user
      using ids_step [OF i, of user "{}"] that by simp
    from False consider "route request = GET_todos" | "route request = POST_todos"
      | "route request = PUT_todos_id" | "route request = PATCH_todos_id_done"
      | "route request = DELETE_todos_id"
      by (cases "route request") simp_all
    then show ?thesis
    proof cases
      case 1
      with Inr have "snd (app e request users) = users"
        by (simp add: app_def guarded_def get_todos_def)
      with 1 show ?thesis by simp
    next
      case 2
      have "todo_ids (users[i := (users ! i)\<lparr>u_todos := ?ts @ added (e, request)\<rparr>])
          \<subseteq> todo_ids users \<union> {uuidv4 e}"
        by (rule ids_step [OF i]) (auto simp: added_def split: sum.splits js_error.splits)
      with post_todos_added [OF 2 Inr, of e] 2 show ?thesis by simp
    next
      case 3
      show ?thesis
      proof (cases ?find)
        case None
        have "todo_ids (users[i := (users ! i)\<lparr>u_todo := PropUndefined\<rparr>]) \<subseteq> todo_ids users"
          by (rule keep) simp
        with put_missing [OF 3 Inr None, of e] 3 show ?thesis by simp
      next
        case (Some k)
        from findIndex_Some [OF Some] have k: "k < length ?ts" by simp
        have same: "todo_ids (users[i := (users ! i)\<lparr>u_todos := ?ts[k := todo], u_todo := PropTodo todo\<rparr>])
            \<subseteq> todo_ids users" if "t_id todo = t_id (?ts ! k)" for todo
        proof -
          have "t_id ` set (?ts[k := todo]) \<subseteq> t_id ` set ?ts"
            using k that by (rule ids_update)
          then show ?thesis
            by (intro keep) simp
        qed
        show ?thesis
        proof (cases "newDate e (property (body request) ''deadline'')")
          case (Inl err)
          define todo where "todo = (?ts ! k)\<lparr>t_title := property (body request) ''title''\<rparr>"
          have "t_id todo = t_id (?ts ! k)" by (simp add: todo_def)
          from same [OF this] put_thrown [OF 3 Inr Some Inl] 3 show ?thesis
            unfolding todo_def by simp
        next
          case date: (Inr date)
          define todo where "todo = (?ts ! k)
            \<lparr>t_title := property (body request) ''title'', t_deadline := date\<rparr>"
          have "t_id todo = t_id (?ts ! k)" by (simp add: todo_def)
          from same [OF this] put_found [OF 3 Inr Some date] 3 show ?thesis
            unfolding todo_def by simp
        qed
      qed
    next
      case 4
      show ?thesis
      proof (cases ?find)
        case None
        have "todo_ids (users[i := (users ! i)\<lparr>u_todo := PropUndefined\<rparr>]) \<subseteq> todo_ids users"
          by (rule keep) simp
        with patch_missing [OF 4 Inr None, of e] 4 show ?thesis by simp
      next
        case (Some k)
        from findIndex_Some [OF Some] have k: "k < length ?ts" by simp
        define todo where "todo = (?ts ! k)\<lparr>t_done := True\<rparr>"
        have "t_id ` set (?ts[k := todo]) \<subseteq> t_id ` set ?ts"
          using k by (rule ids_update) (simp add: todo_def)
        then have "todo_ids (users[i := (users ! i)\<lparr>u_todos := ?ts[k := todo], u_todo := PropTodo todo\<rparr>])
            \<subseteq> todo_ids users"
          by (intro keep) simp
        with patch_found [OF 4 Inr Some, of e] 4 show ?thesis
          unfolding todo_def by simp
      qed
    next
      case 5
      show ?thesis
      proof (cases ?find)
        case None
        from delete_missing [OF 5 Inr None, of e] 5 show ?thesis by simp
      next
        case (Some k)
        define ts' where "ts' = take k ?ts @ drop (Suc k) ?ts"
        have "t_id ` set ts' \<subseteq> t_id ` set ?ts"
          unfolding ts'_def by (rule ids_splice)
        then have "todo_ids (users[i := (users ! i)\<lparr>u_todos := ts'\<rparr>]) \<subseteq> todo_ids users"
          by (intro keep) simp
        with delete_found [OF 5 Inr Some, of e] 5 show ?thesis
          unfolding ts'_def by simp
      qed
    qed
  qed
qed

lemma run_ids:
  "todo_ids (run trace users) \<subseteq>
     todo_ids users \<union> {uuidv4 (fst c) | c. c \<in> set trace \<and> route (snd c) = POST_todos}"
proof (induction trace arbitrary: users)
  case Nil
  then show ?case by simp
next
  case (Cons c trace)
  obtain e request where c: "c = (e, request)" by (cases c)
  have "todo_ids (run (c # trace) users) = todo_ids (run trace (snd (app e request users)))"
    by (simp add: c)
  also have "\<dots> \<subseteq> todo_ids (snd (app e request users)) \<union>
      {uuidv4 (fst c) | c. c \<in> set trace \<and> route (snd c) = POST_todos}"
    by (rule Cons.IH)
  also have "\<dots> \<subseteq> (todo_ids users \<union> (if route request = POST_todos then {uuidv4 e} else {})) \<union>
      {uuidv4 (fst c) | c. c \<in> set trace \<and> route (snd c) = POST_todos}"
    using app_ids [of e request users] by blast
  also have "\<dots> \<subseteq> todo_ids users \<union>
      {uuidv4 (fst c') | c'. c' \<in> set (c # trace) \<and> route (snd c') = POST_todos}"
    by (auto simp: c)
  finally show ?case .
qed

lemma object_store_value: "object_store = [bob ''u1'']"
  by (simp add: object_store_def create_object_def sample_env_def bob_def eval_defs)

lemma nameless_store_value: "nameless_store = [nameless]"
  by (simp add: nameless_store_def create_nameless_def no_fields_def sample_env_def nameless_def
      eval_defs)

lemma ana_one_todo_value: "run ana_one_todo [] = [ana [milk_todo] NoProp]"
  by (simp add: ana_one_todo_def sample_env_def create_ana_def as_ana_def milk_def eval_defs
      ana_def milk_todo_def)

section \<open>Creating users\<close>

text \<open>
  Claim C1, amended. In every reachable store the usernames that are strings,
  numbers, booleans, \<^verbatim>\<open>null\<close> or absent are pairwise different. \<^verbatim>\<open>POST /users\<close> with
  such a username that a stored user already has answers with status 400 and leaves
  the store as it was; so after two such requests with the same username the second
  is a conflict and exactly one stored user has that username. When no stored
  username is strictly equal to the one sent, the request appends a user with empty
  \<^verbatim>\<open>todos\<close> and answers with status 201 and that user. An array or object sent as
  username is strictly equal to no stored username, so it never conflicts.
\<close>

theorem C1_unique_usernames:
  "distinct (filter primitive (map u_username (run trace []))) \<and>
   (route request = POST_users \<and>
    (\<exists>user \<in> set users. u_username user = property (body request) ''username'') \<and>
    primitive (property (body request) ''username'') \<longrightarrow>
      app e request users = (\<lparr>status = 400, payload = ErrorJson UserAlreadyExists\<rparr>, users)) \<and>
   (route request = POST_users \<and> route request' = POST_users \<and>
    primitive (property (body request) ''username'') \<and>
    property (body request') ''username'' = property (body request) ''username'' \<longrightarrow>
      app e' request' (snd (app e request (run trace []))) =
        (\<lparr>status = 400, payload = ErrorJson UserAlreadyExists\<rparr>,
         snd (app e request (run trace []))) \<and>
      length (filter (\<lambda>user. u_username user = property (body request) ''username'')
        (snd (app e request (run trace [])))) = 1) \<and>
   (route request = POST_users \<and>
    (\<forall>user \<in> set users. \<not> strict_eq (u_username user) (property (body request) ''username'')) \<longrightarrow>
      app e request users =
        (\<lparr>status = 201,
          payload = UserJson \<lparr>u_id = uuidv4 e, u_name = property (body request) ''name'',
            u_username = property (body request) ''username'', u_todos = [], u_todo = NoProp\<rparr>\<rparr>,
         users @ [\<lparr>u_id = uuidv4 e, u_name = property (body request) ''name'',
            u_username = property (body request) ''username'', u_todos = [], u_todo = NoProp\<rparr>])) \<and>
   (route request = POST_users \<and> \<not> primitive (property (body request) ''username'') \<longrightarrow>
      app e request users =
        (\<lparr>status = 201,
          payload = UserJson \<lparr>u_id = uuidv4 e, u_name = property (body request) ''name'',
            u_username = property (body request) ''username'', u_todos = [], u_todo = NoProp\<rparr>\<rparr>,
         users @ [\<lparr>u_id = uuidv4 e, u_name = property (body request) ''name'',
            u_username = property (body request) ''username'', u_todos = [], u_todo = NoProp\<rparr>]))"
proof (intro conjI impI)
  show inv: "distinct (filter primitive (map u_username (run trace [])))"
    by (rule run_distinct) simp
  {
    assume a: "route request = POST_users \<and>
      (\<exists>user \<in> set users. u_username user = property (body request) ''username'') \<and>
      primitive (property (body request) ''username'')"
    then have "\<exists>user \<in> set users. strict_eq (u_username user) (property (body request) ''username'')"
      by (auto simp: strict_eq_iff)
    with a show "app e request users = (\<lparr>status = 400, payload = ErrorJson UserAlreadyExists\<rparr>, users)"
      by (simp add: post_users_conflict)
  }
  {
    assume a: "route request = POST_users \<and> route request' = POST_users \<and>
      primitive (property (body request) ''username'') \<and>
      property (body request') ''username'' = property (body request) ''username''"
    then have r: "route request = POST_users" and r': "route request' = POST_users"
      and p: "primitive (property (body request) ''username'')"
      and s: "property (body request') ''username'' = property (body request) ''username''"
      by simp_all
    from create_twice [OF r r' p s inv, of e' e]
    show "app e' request' (snd (app e request (run trace []))) =
        (\<lparr>status = 400, payload = ErrorJson UserAlreadyExists\<rparr>,
         snd (app e request (run trace [])))"
      and "length (filter (\<lambda>user. u_username user = property (body request) ''username'')
        (snd (app e request (run trace [])))) = 1"
      by simp_all
  }
  {
    assume a: "route request = POST_users \<and>
      (\<forall>user \<in> set users. \<not> strict_eq (u_username user) (property (body request) ''username''))"
    then show "app e request users =
        (\<lparr>status = 201, payload = UserJson (created_user e request)\<rparr>,
         users @ [created_user e request])"
      by (simp add: post_users_created)
  }
  {
    assume a: "route request = POST_users \<and> \<not> primitive (property (body request) ''username'')"
    then have "\<forall>user \<in> set users.
        \<not> strict_eq (u_username user) (property (body request) ''username'')"
      by (auto simp: strict_eq_iff)
    with a show "app e request users =
        (\<lparr>status = 201, payload = UserJson (created_user e request)\<rparr>,
         users @ [created_user e request])"
      by (simp add: post_users_created)
  }
qed

theorem C1_unique_usernames_witness:
  "primitive (property (body create_ana) ''username'') \<and>
   app (sample_env ''u1'' 10) create_ana [] =
     (\<lparr>status = 201, payload = UserJson (ana [] NoProp)\<rparr>, [ana [] NoProp]) \<and>
   app (sample_env ''u2'' 20) create_ana (snd (app (sample_env ''u1'' 10) create_ana (run [] []))) =
     (\<lparr>status = 400, payload = ErrorJson UserAlreadyExists\<rparr>, [ana [] NoProp]) \<and>
   length (filter (\<lambda>user. u_username user = JStr ''ana'')
     (snd (app (sample_env ''u1'' 10) create_ana (run [] [])))) = 1 \<and>
   app (sample_env ''u2'' 20) create_object object_store =
     (\<lparr>status = 201, payload = UserJson (bob ''u2'')\<rparr>, [bob ''u1'', bob ''u2''])"
proof -
  let ?e = "sample_env ''u1'' 10"
  let ?e' = "sample_env ''u2'' 20"
  have ro: "route create_object = POST_users \<and>
      \<not> primitive (property (body create_object) ''username'')"
    by (simp add: create_object_def property_def)
  from C1_unique_usernames [where request = create_object and users = object_store and e = ?e',
      THEN conjunct2, THEN conjunct2, THEN conjunct2, THEN conjunct2, THEN mp, OF ro]
  have object: "app ?e' create_object object_store =
     (\<lparr>status = 201, payload = UserJson (bob ''u2'')\<rparr>, [bob ''u1'', bob ''u2''])"
    by (simp add: object_store_value create_object_def sample_env_def property_def bob_def)
  have r: "route create_ana = POST_users"
    by (simp add: create_ana_def)
  have u: "property (body create_ana) ''username'' = JStr ''ana''"
    by (simp add: create_ana_def property_def)
  have p: "primitive (property (body create_ana) ''username'')"
    by (simp add: u)
  have n: "\<forall>user \<in> set []. \<not> strict_eq (u_username user) (property (body create_ana) ''username'')"
    by simp
  note c1 = C1_unique_usernames [where trace = "[]" and request = create_ana
      and request' = create_ana and users = "[]" and e = ?e and e' = ?e']
  from c1 [THEN conjunct2, THEN conjunct2, THEN conjunct2, THEN conjunct1, THEN mp,
      OF conjI [OF r n]]
  have "app ?e create_ana [] =
        (\<lparr>status = 201,
          payload = UserJson \<lparr>u_id = uuidv4 ?e, u_name = property (body create_ana) ''name'',
            u_username = property (body create_ana) ''username'', u_todos = [], u_todo = NoProp\<rparr>\<rparr>,
         [] @ [\<lparr>u_id = uuidv4 ?e, u_name = property (body create_ana) ''name'',
            u_username = property (body create_ana) ''username'', u_todos = [], u_todo = NoProp\<rparr>])" .
  then have first: "app ?e create_ana [] =
     (\<lparr>status = 201, payload = UserJson (ana [] NoProp)\<rparr>, [ana [] NoProp])"
    by (simp add: sample_env_def create_ana_def property_def ana_def)
  from c1 [THEN conjunct2, THEN conjunct2, THEN conjunct1, rule_format,
      OF conjI [OF r conjI [OF r conjI [OF p refl]]]]
  have "app ?e' create_ana (snd (app ?e create_ana (run [] []))) =
        (\<lparr>status = 400, payload = ErrorJson UserAlreadyExists\<rparr>,
         snd (app ?e create_ana (run [] []))) \<and>
      length (filter (\<lambda>user. u_username user = property (body create_ana) ''username'')
        (snd (app ?e create_ana (run [] [])))) = 1" .
  then have twice: "app ?e' create_ana (snd (app ?e create_ana (run [] []))) =
        (\<lparr>status = 400, payload = ErrorJson UserAlreadyExists\<rparr>, [ana [] NoProp])"
    and one: "length (filter (\<lambda>user. u_username user = JStr ''ana'')
        (snd (app ?e create_ana (run [] [])))) = 1"
    by (simp_all add: first u)
  from p first twice one object show ?thesis
    by (intro conjI)
qed

text \<open>
  Claim C1 as it is written, for every username, fails: two requests whose
  username is the empty object both answer 201, and the store then has two users
  with that username.
\<close>

theorem C1_counterexample:
  "status (fst (app (sample_env ''u2'' 20) create_object
     (snd (app (sample_env ''u1'' 10) create_object [])))) = 201 \<and>
   map u_username (snd (app (sample_env ''u2'' 20) create_object
     (snd (app (sample_env ''u1'' 10) create_object [])))) = [JObject [], JObject []]"
  by (simp add: create_object_def sample_env_def eval_defs)

section \<open>Unknown ids\<close>

text \<open>
  Claim C2. For a resolved user and an id that none of the user's todos has,
  \<^verbatim>\<open>PUT /todos/:id\<close>, \<^verbatim>\<open>PATCH /todos/:id/done\<close> and \<^verbatim>\<open>DELETE /todos/:id\<close> answer
  with status 404, and the \<^verbatim>\<open>todos\<close> of every user are what they were before.
\<close>

theorem C2_unknown_id:
  assumes "route request \<in> {PUT_todos_id, PATCH_todos_id_done, DELETE_todos_id}"
    and "checksExistsUserAccount users request = Inr i"
    and "\<forall>todo \<in> set (u_todos (users ! i)). t_id todo \<noteq> params_id request"
  shows "fst (app e request users) = \<lparr>status = 404, payload = ErrorJson TodoNotFound\<rparr> \<and>
         map u_todos (snd (app e request users)) = map u_todos users"
proof -
  from assms(3)
  have none: "findIndex (\<lambda>todo. t_id todo = params_id request) (u_todos (users ! i)) = None"
    by (rule findIndex_absent)
  have same: "map u_todos (users[i := (users ! i)\<lparr>u_todo := PropUndefined\<rparr>]) = map u_todos users"
    by (simp add: map_update map_update_same)
  from assms(1) consider "route request = PUT_todos_id" | "route request = PATCH_todos_id_done"
    | "route request = DELETE_todos_id"
    by auto
  then show ?thesis
  proof cases
    case 1
    from put_missing [OF 1 assms(2) none] same show ?thesis by simp
  next
    case 2
    from patch_missing [OF 2 assms(2) none] same show ?thesis by simp
  next
    case 3
    from delete_missing [OF 3 assms(2) none] show ?thesis by simp
  qed
qed

theorem C2_unknown_id_witness:
  "checksExistsUserAccount ana_two_todos (as_ana PUT_todos_id ''zz'' milk) = Inr 0 \<and>
   fst (app (sample_env ''u9'' 40) (as_ana PUT_todos_id ''zz'' milk) ana_two_todos) =
     \<lparr>status = 404, payload = ErrorJson TodoNotFound\<rparr> \<and>
   map u_todos (snd (app (sample_env ''u9'' 40) (as_ana PUT_todos_id ''zz'' milk) ana_two_todos)) =
     [[milk_todo, bread_todo]]"
proof -
  have r: "route (as_ana PUT_todos_id ''zz'' milk) \<in> {PUT_todos_id, PATCH_todos_id_done, DELETE_todos_id}"
    by (simp add: as_ana_def)
  have c: "checksExistsUserAccount ana_two_todos (as_ana PUT_todos_id ''zz'' milk) = Inr 0"
    by (simp add: ana_two_todos_value ana_resolved)
  have n: "\<forall>todo \<in> set (u_todos (ana_two_todos ! 0)).
             t_id todo \<noteq> params_id (as_ana PUT_todos_id ''zz'' milk)"
    by (simp add: ana_two_todos_value ana_def as_ana_def milk_todo_def bread_todo_def)
  from C2_unknown_id [OF r c n, of "sample_env ''u9'' 40"] c show ?thesis
    by (simp add: ana_two_todos_value ana_def)
qed

section \<open>Completing\<close>

text \<open>
  Claim C3. For a resolved user and an id that one of the user's todos has,
  \<^verbatim>\<open>PATCH /todos/:id/done\<close> sets \<^verbatim>\<open>done\<close> of the first todo with that id to true and
  answers with status 200 and that todo; the same request again gives the same
  response and the same store. Whatever the request, the \<^verbatim>\<open>todos\<close> of a user either
  keep their length and ids with no \<^verbatim>\<open>done\<close> going from true to false, or gain one
  entry at the end, or lose one entry: no request turns \<^verbatim>\<open>done\<close> back to false.
\<close>

theorem C3_complete:
  "(route request = PATCH_todos_id_done \<and> checksExistsUserAccount users request = Inr i \<and>
    (\<exists>todo \<in> set (u_todos (users ! i)). t_id todo = params_id request) \<longrightarrow>
      (\<exists>k < length (u_todos (users ! i)).
         t_id (u_todos (users ! i) ! k) = params_id request \<and>
         (\<forall>j < k. t_id (u_todos (users ! i) ! j) \<noteq> params_id request) \<and>
         app e request users =
           (\<lparr>status = 200, payload = TodoJson ((u_todos (users ! i) ! k)\<lparr>t_done := True\<rparr>)\<rparr>,
            users[i := (users ! i)
              \<lparr>u_todos := (u_todos (users ! i))[k := (u_todos (users ! i) ! k)\<lparr>t_done := True\<rparr>],
               u_todo := PropTodo ((u_todos (users ! i) ! k)\<lparr>t_done := True\<rparr>)\<rparr>]) \<and>
         t_done (u_todos (snd (app e request users) ! i) ! k)) \<and>
      app e' request (snd (app e request users)) = app e request users) \<and>
   (\<forall>n < length users.
      (length (u_todos (snd (app e request users) ! n)) = length (u_todos (users ! n)) \<and>
       (\<forall>j < length (u_todos (users ! n)).
          t_id (u_todos (snd (app e request users) ! n) ! j) = t_id (u_todos (users ! n) ! j) \<and>
          (t_done (u_todos (users ! n) ! j) \<longrightarrow>
             t_done (u_todos (snd (app e request users) ! n) ! j)))) \<or>
      (\<exists>todo. u_todos (snd (app e request users) ! n) = u_todos (users ! n) @ [todo]) \<or>
      (\<exists>j < length (u_todos (users ! n)).
         u_todos (snd (app e request users) ! n) =
           take j (u_todos (users ! n)) @ drop (Suc j) (u_todos (users ! n))))"
proof (intro conjI impI allI)
  assume a: "route request = PATCH_todos_id_done \<and> checksExistsUserAccount users request = Inr i \<and>
    (\<exists>todo \<in> set (u_todos (users ! i)). t_id todo = params_id request)"
  then have r: "route request = PATCH_todos_id_done"
    and c: "checksExistsUserAccount users request = Inr i"
    and p: "\<exists>todo \<in> set (u_todos (users ! i)). t_id todo = params_id request"
    by simp_all
  from p obtain k
    where k: "findIndex (\<lambda>todo. t_id todo = params_id request) (u_todos (users ! i)) = Some k"
      "k < length (u_todos (users ! i))" "t_id (u_todos (users ! i) ! k) = params_id request"
      "\<forall>j < k. t_id (u_todos (users ! i) ! j) \<noteq> params_id request"
    by (rule findIndex_present)
  from checks_Inr [OF c] have i: "i < length users" by simp
  note app = patch_found [OF r c k(1), of e]
  have "t_done (u_todos (snd (app e request users) ! i) ! k)"
    using i k(2) by (simp add: app)
  with k(2-4) app
  show "\<exists>k < length (u_todos (users ! i)).
         t_id (u_todos (users ! i) ! k) = params_id request \<and>
         (\<forall>j < k. t_id (u_todos (users ! i) ! j) \<noteq> params_id request) \<and>
         app e request users =
           (\<lparr>status = 200, payload = TodoJson ((u_todos (users ! i) ! k)\<lparr>t_done := True\<rparr>)\<rparr>,
            users[i := (users ! i)
              \<lparr>u_todos := (u_todos (users ! i))[k := (u_todos (users ! i) ! k)\<lparr>t_done := True\<rparr>],
               u_todo := PropTodo ((u_todos (users ! i) ! k)\<lparr>t_done := True\<rparr>)\<rparr>]) \<and>
         t_done (u_todos (snd (app e request users) ! i) ! k)"
    by blast
  from patch_twice [OF r c k(1)]
  show "app e' request (snd (app e request users)) = app e request users" .
next
  fix n assume "n < length users"
  from app_step [OF this, of e request]
  show "(length (u_todos (snd (app e request users) ! n)) = length (u_todos (users ! n)) \<and>
       (\<forall>j < length (u_todos (users ! n)).
          t_id (u_todos (snd (app e request users) ! n) ! j) = t_id (u_todos (users ! n) ! j) \<and>
          (t_done (u_todos (users ! n) ! j) \<longrightarrow>
             t_done (u_todos (snd (app e request users) ! n) ! j)))) \<or>
      (\<exists>todo. u_todos (snd (app e request users) ! n) = u_todos (users ! n) @ [todo]) \<or>
      (\<exists>j < length (u_todos (users ! n)).
         u_todos (snd (app e request users) ! n) =
           take j (u_todos (users ! n)) @ drop (Suc j) (u_todos (users ! n)))"
    unfolding todos_step_def .
qed

theorem C3_complete_witness:
  "checksExistsUserAccount ana_two_todos (as_ana PATCH_todos_id_done ''t1'' no_fields) = Inr 0 \<and>
   app (sample_env ''u8'' 40) (as_ana PATCH_todos_id_done ''t1'' no_fields) ana_two_todos =
     (\<lparr>status = 200, payload = TodoJson (milk_todo\<lparr>t_done := True\<rparr>)\<rparr>,
      [ana [milk_todo\<lparr>t_done := True\<rparr>, bread_todo] (PropTodo (milk_todo\<lparr>t_done := True\<rparr>))]) \<and>
   app (sample_env ''u9'' 50) (as_ana PATCH_todos_id_done ''t1'' no_fields)
     (snd (app (sample_env ''u8'' 40) (as_ana PATCH_todos_id_done ''t1'' no_fields) ana_two_todos)) =
     app (sample_env ''u8'' 40) (as_ana PATCH_todos_id_done ''t1'' no_fields) ana_two_todos \<and>
   t_done (u_todos (snd (app (sample_env ''u9'' 50) (as_ana PUT_todos_id ''t1'' bread)
     [ana [milk_todo\<lparr>t_done := True\<rparr>, bread_todo] NoProp]) ! 0) ! 0)"
proof -
  let ?e = "sample_env ''u8'' 40"
  let ?e' = "sample_env ''u9'' 50"
  let ?patch = "as_ana PATCH_todos_id_done ''t1'' no_fields"
  let ?put = "as_ana PUT_todos_id ''t1'' bread"
  let ?done = "[ana [milk_todo\<lparr>t_done := True\<rparr>, bread_todo] NoProp]"
  have r: "route ?patch = PATCH_todos_id_done"
    by (simp add: as_ana_def)
  have c: "checksExistsUserAccount ana_two_todos ?patch = Inr 0"
    by (simp add: ana_two_todos_value ana_resolved)
  have p: "\<exists>todo \<in> set (u_todos (ana_two_todos ! 0)). t_id todo = params_id ?patch"
    by (simp add: ana_two_todos_value ana_def as_ana_def milk_todo_def bread_todo_def)
  from C3_complete [of ?patch ana_two_todos 0 ?e ?e'] r c p obtain k
    where k: "k < length (u_todos (ana_two_todos ! 0))"
      "t_id (u_todos (ana_two_todos ! 0) ! k) = params_id ?patch"
      "app ?e ?patch ana_two_todos =
           (\<lparr>status = 200, payload = TodoJson ((u_todos (ana_two_todos ! 0) ! k)\<lparr>t_done := True\<rparr>)\<rparr>,
            ana_two_todos[0 := (ana_two_todos ! 0)
              \<lparr>u_todos := (u_todos (ana_two_todos ! 0))[k := (u_todos (ana_two_todos ! 0) ! k)\<lparr>t_done := True\<rparr>],
               u_todo := PropTodo ((u_todos (ana_two_todos ! 0) ! k)\<lparr>t_done := True\<rparr>)\<rparr>])"
    and twice: "app ?e' ?patch (snd (app ?e ?patch ana_two_todos)) = app ?e ?patch ana_two_todos"
    by blast
  from k(1) have "k = 0 \<or> k = 1"
    by (auto simp: ana_two_todos_value ana_def)
  with k(2) have "k = 0"
    by (auto simp: ana_two_todos_value ana_def as_ana_def milk_todo_def bread_todo_def)
  with k(3) have first: "app ?e ?patch ana_two_todos =
     (\<lparr>status = 200, payload = TodoJson (milk_todo\<lparr>t_done := True\<rparr>)\<rparr>,
      [ana [milk_todo\<lparr>t_done := True\<rparr>, bread_todo] (PropTodo (milk_todo\<lparr>t_done := True\<rparr>))])"
    by (simp add: ana_two_todos_value ana_def)
  have len: "0 < length ?done" by simp
  have before: "t_done (u_todos (?done ! 0) ! 0)" "0 < length (u_todos (?done ! 0))"
    by (simp_all add: ana_def)
  have after: "length (u_todos (snd (app ?e' ?put ?done) ! 0)) = 2"
    by (simp add: ana_def as_ana_def sample_env_def bread_def eval_defs milk_todo_def
        bread_todo_def)
  have two: "length (u_todos (?done ! 0)) = 2"
    by (simp add: ana_def)
  from C3_complete [of ?put ?done 0 ?e' ?e'] len
  have "(length (u_todos (snd (app ?e' ?put ?done) ! 0)) = length (u_todos (?done ! 0)) \<and>
       (\<forall>j < length (u_todos (?done ! 0)).
          t_id (u_todos (snd (app ?e' ?put ?done) ! 0) ! j) = t_id (u_todos (?done ! 0) ! j) \<and>
          (t_done (u_todos (?done ! 0) ! j) \<longrightarrow> t_done (u_todos (snd (app ?e' ?put ?done) ! 0) ! j)))) \<or>
      (\<exists>todo. u_todos (snd (app ?e' ?put ?done) ! 0) = u_todos (?done ! 0) @ [todo]) \<or>
      (\<exists>j < length (u_todos (?done ! 0)).
         u_todos (snd (app ?e' ?put ?done) ! 0) =
           take j (u_todos (?done ! 0)) @ drop (Suc j) (u_todos (?done ! 0)))"
    by blast
  then have "\<forall>j < length (u_todos (?done ! 0)).
          (t_done (u_todos (?done ! 0) ! j) \<longrightarrow> t_done (u_todos (snd (app ?e' ?put ?done) ! 0) ! j))"
  proof (elim disjE)
    assume "\<exists>todo. u_todos (snd (app ?e' ?put ?done) ! 0) = u_todos (?done ! 0) @ [todo]"
    then obtain todo where "u_todos (snd (app ?e' ?put ?done) ! 0) = u_todos (?done ! 0) @ [todo]" ..
    then have "length (u_todos (snd (app ?e' ?put ?done) ! 0)) = Suc (length (u_todos (?done ! 0)))"
      by simp
    with after two show ?thesis by simp
  next
    assume "\<exists>j < length (u_todos (?done ! 0)).
         u_todos (snd (app ?e' ?put ?done) ! 0) =
           take j (u_todos (?done ! 0)) @ drop (Suc j) (u_todos (?done ! 0))"
    then obtain j where "j < length (u_todos (?done ! 0))"
      "u_todos (snd (app ?e' ?put ?done) ! 0) =
           take j (u_todos (?done ! 0)) @ drop (Suc j) (u_todos (?done ! 0))"
      by blast
    then have "Suc (length (u_todos (snd (app ?e' ?put ?done) ! 0))) = length (u_todos (?done ! 0))"
      by simp
    with after two show ?thesis by simp
  qed blast
  with before have kept: "t_done (u_todos (snd (app ?e' ?put ?done) ! 0) ! 0)"
    by blast
  from c first twice kept show ?thesis
    by (intro conjI)
qed

section \<open>Deleting\<close>

text \<open>
  Claim C4. For a resolved user and an id that one of the user's todos has,
  \<^verbatim>\<open>DELETE /todos/:id\<close> takes out the first todo with that id and no other, keeps
  the others in their order, and answers with status 204 and no body.
\<close>

theorem C4_delete:
  assumes "route request = DELETE_todos_id"
    and "checksExistsUserAccount users request = Inr i"
    and "\<exists>todo \<in> set (u_todos (users ! i)). t_id todo = params_id request"
  shows "\<exists>k < length (u_todos (users ! i)).
           t_id (u_todos (users ! i) ! k) = params_id request \<and>
           (\<forall>j < k. t_id (u_todos (users ! i) ! j) \<noteq> params_id request) \<and>
           app e request users =
             (\<lparr>status = 204, payload = NoBody\<rparr>,
              users[i := (users ! i)
                \<lparr>u_todos := take k (u_todos (users ! i)) @ drop (Suc k) (u_todos (users ! i))\<rparr>]) \<and>
           u_todos (snd (app e request users) ! i) =
             take k (u_todos (users ! i)) @ drop (Suc k) (u_todos (users ! i)) \<and>
           Suc (length (u_todos (snd (app e request users) ! i))) = length (u_todos (users ! i))"
proof -
  from assms(3) obtain k
    where k: "findIndex (\<lambda>todo. t_id todo = params_id request) (u_todos (users ! i)) = Some k"
      "k < length (u_todos (users ! i))" "t_id (u_todos (users ! i) ! k) = params_id request"
      "\<forall>j < k. t_id (u_todos (users ! i) ! j) \<noteq> params_id request"
    by (rule findIndex_present)
  from checks_Inr [OF assms(2)] have i: "i < length users" by simp
  note app = delete_found [OF assms(1) assms(2) k(1), of e]
  have todos: "u_todos (snd (app e request users) ! i) =
      take k (u_todos (users ! i)) @ drop (Suc k) (u_todos (users ! i))"
    using i by (simp add: app)
  have len: "Suc (length (u_todos (snd (app e request users) ! i))) = length (u_todos (users ! i))"
    unfolding todos using k(2) by simp
  from k(2-4) app todos len show ?thesis by blast
qed

theorem C4_delete_witness:
  "checksExistsUserAccount ana_two_todos (as_ana DELETE_todos_id ''t1'' no_fields) = Inr 0 \<and>
   app (sample_env ''u9'' 40) (as_ana DELETE_todos_id ''t1'' no_fields) ana_two_todos =
     (\<lparr>status = 204, payload = NoBody\<rparr>, [ana [bread_todo] NoProp])"
proof -
  have r: "route (as_ana DELETE_todos_id ''t1'' no_fields) = DELETE_todos_id"
    by (simp add: as_ana_def)
  have c: "checksExistsUserAccount ana_two_todos (as_ana DELETE_todos_id ''t1'' no_fields) = Inr 0"
    by (simp add: ana_two_todos_value ana_resolved)
  have p: "\<exists>todo \<in> set (u_todos (ana_two_todos ! 0)).
             t_id todo = params_id (as_ana DELETE_todos_id ''t1'' no_fields)"
    by (simp add: ana_two_todos_value ana_def as_ana_def milk_todo_def bread_todo_def)
  from C4_delete [OF r c p, of "sample_env ''u9'' 40"] obtain k
    where k: "k < length (u_todos (ana_two_todos ! 0))"
      "t_id (u_todos (ana_two_todos ! 0) ! k) = params_id (as_ana DELETE_todos_id ''t1'' no_fields)"
      "app (sample_env ''u9'' 40) (as_ana DELETE_todos_id ''t1'' no_fields) ana_two_todos =
         (\<lparr>status = 204, payload = NoBody\<rparr>,
          ana_two_todos[0 := (ana_two_todos ! 0)
            \<lparr>u_todos := take k (u_todos (ana_two_todos ! 0)) @
                        drop (Suc k) (u_todos (ana_two_todos ! 0))\<rparr>])"
    by blast
  from k(1) have "k = 0 \<or> k = 1"
    by (auto simp: ana_two_todos_value ana_def)
  with k(2) have "k = 0"
    by (auto simp: ana_two_todos_value ana_def as_ana_def milk_todo_def bread_todo_def)
  with k(3) c show ?thesis
    by (simp add: ana_two_todos_value ana_def)
qed

section \<open>Updating\<close>

text \<open>
  Claim C5. For a resolved user and an id that one of the user's todos has,
  \<^verbatim>\<open>PUT /todos/:id\<close> succeeds, with status 200, exactly when \<^verbatim>\<open>new Date(deadline)\<close>
  returns a date. A successful update replaces \<^verbatim>\<open>title\<close> and \<^verbatim>\<open>deadline\<close> of the first
  todo with that id, in place; its \<^verbatim>\<open>id\<close>, \<^verbatim>\<open>done\<close> and \<^verbatim>\<open>created_at\<close> stay, every other
  todo stays, the length and the order stay, and the response carries the updated
  todo.
\<close>

theorem C5_update:
  assumes "route request = PUT_todos_id"
    and "checksExistsUserAccount users request = Inr i"
    and "\<exists>todo \<in> set (u_todos (users ! i)). t_id todo = params_id request"
  shows "(status (fst (app e request users)) = 200 \<longleftrightarrow>
            (\<exists>date. newDate e (property (body request) ''deadline'') = Inr date)) \<and>
         (\<forall>date. newDate e (property (body request) ''deadline'') = Inr date \<longrightarrow>
            (\<exists>k < length (u_todos (users ! i)). \<exists>todo.
               t_id (u_todos (users ! i) ! k) = params_id request \<and>
               (\<forall>j < k. t_id (u_todos (users ! i) ! j) \<noteq> params_id request) \<and>
               todo = (u_todos (users ! i) ! k)
                 \<lparr>t_title := property (body request) ''title'', t_deadline := date\<rparr> \<and>
               t_id todo = t_id (u_todos (users ! i) ! k) \<and>
               t_done todo = t_done (u_todos (users ! i) ! k) \<and>
               t_created_at todo = t_created_at (u_todos (users ! i) ! k) \<and>
               app e request users =
                 (\<lparr>status = 200, payload = TodoJson todo\<rparr>,
                  users[i := (users ! i)
                    \<lparr>u_todos := (u_todos (users ! i))[k := todo], u_todo := PropTodo todo\<rparr>]) \<and>
               u_todos (snd (app e request users) ! i) = (u_todos (users ! i))[k := todo] \<and>
               length (u_todos (snd (app e request users) ! i)) = length (u_todos (users ! i)) \<and>
               (\<forall>j < length (u_todos (users ! i)). j \<noteq> k \<longrightarrow>
                  u_todos (snd (app e request users) ! i) ! j = u_todos (users ! i) ! j)))"
proof -
  let ?ts = "u_todos (users ! i)"
  from assms(3) obtain k
    where k: "findIndex (\<lambda>todo. t_id todo = params_id request) ?ts = Some k"
      "k < length ?ts" "t_id (?ts ! k) = params_id request"
      "\<forall>j < k. t_id (?ts ! j) \<noteq> params_id request"
    by (rule findIndex_present)
  from checks_Inr [OF assms(2)] have i: "i < length users" by simp
  have ok: "status (fst (app e request users)) = 200 \<longleftrightarrow>
      (\<exists>date. newDate e (property (body request) ''deadline'') = Inr date)"
  proof (cases "newDate e (property (body request) ''deadline'')")
    case (Inl err)
    from put_thrown [OF assms(1) assms(2) k(1) Inl] Inl show ?thesis by simp
  next
    case (Inr date)
    from put_found [OF assms(1) assms(2) k(1) Inr] Inr show ?thesis by simp
  qed
  have replaced: "\<exists>k < length ?ts. \<exists>todo.
               t_id (?ts ! k) = params_id request \<and>
               (\<forall>j < k. t_id (?ts ! j) \<noteq> params_id request) \<and>
               todo = (?ts ! k)\<lparr>t_title := property (body request) ''title'', t_deadline := date\<rparr> \<and>
               t_id todo = t_id (?ts ! k) \<and>
               t_done todo = t_done (?ts ! k) \<and>
               t_created_at todo = t_created_at (?ts ! k) \<and>
               app e request users =
                 (\<lparr>status = 200, payload = TodoJson todo\<rparr>,
                  users[i := (users ! i)\<lparr>u_todos := ?ts[k := todo], u_todo := PropTodo todo\<rparr>]) \<and>
               u_todos (snd (app e request users) ! i) = ?ts[k := todo] \<and>
               length (u_todos (snd (app e request users) ! i)) = length ?ts \<and>
               (\<forall>j < length ?ts. j \<noteq> k \<longrightarrow>
                  u_todos (snd (app e request users) ! i) ! j = ?ts ! j)"
    if date: "newDate e (property (body request) ''deadline'') = Inr date" for date
  proof -
    define todo where "todo = (?ts ! k)
        \<lparr>t_title := property (body request) ''title'', t_deadline := date\<rparr>"
    have app: "app e request users =
               (\<lparr>status = 200, payload = TodoJson todo\<rparr>,
                users[i := (users ! i)\<lparr>u_todos := ?ts[k := todo], u_todo := PropTodo todo\<rparr>])"
      unfolding todo_def by (rule put_found [OF assms(1) assms(2) k(1) date])
    have todos: "u_todos (snd (app e request users) ! i) = ?ts[k := todo]"
      using i by (simp add: app)
    have fields: "t_id todo = t_id (?ts ! k)" "t_done todo = t_done (?ts ! k)"
      "t_created_at todo = t_created_at (?ts ! k)"
      by (simp_all add: todo_def)
    have frame: "length (u_todos (snd (app e request users) ! i)) = length ?ts"
      "\<forall>j < length ?ts. j \<noteq> k \<longrightarrow> u_todos (snd (app e request users) ! i) ! j = ?ts ! j"
      unfolding todos by simp_all
    from k(2-4) todo_def fields app todos frame show ?thesis by blast
  qed
  from ok replaced show ?thesis by blast
qed

theorem C5_update_witness:
  "checksExistsUserAccount ana_two_todos (as_ana PUT_todos_id ''t2'' milk) = Inr 0 \<and>
   newDate (sample_env ''u9'' 40) (property (body (as_ana PUT_todos_id ''t2'' milk)) ''deadline'') =
     Inr (Date 1704067200000) \<and>
   app (sample_env ''u9'' 40) (as_ana PUT_todos_id ''t2'' milk) ana_two_todos =
     (\<lparr>status = 200, payload = TodoJson
         \<lparr>t_id = ''t2'', t_title = JStr ''buy milk'', t_done = False,
          t_deadline = Date 1704067200000, t_created_at = Date 30\<rparr>\<rparr>,
      [ana [milk_todo,
            \<lparr>t_id = ''t2'', t_title = JStr ''buy milk'', t_done = False,
             t_deadline = Date 1704067200000, t_created_at = Date 30\<rparr>]
         (PropTodo \<lparr>t_id = ''t2'', t_title = JStr ''buy milk'', t_done = False,
             t_deadline = Date 1704067200000, t_created_at = Date 30\<rparr>)]) \<and>
   status (fst (app (sample_env ''u9'' 40) (as_ana PUT_todos_id ''t2'' eggs) ana_two_todos)) \<noteq> 200"
proof -
  let ?e = "sample_env ''u9'' 40"
  let ?put = "as_ana PUT_todos_id ''t2'' milk"
  let ?bad = "as_ana PUT_todos_id ''t2'' eggs"
  have r: "route ?put = PUT_todos_id" and r': "route ?bad = PUT_todos_id"
    by (simp_all add: as_ana_def)
  have c: "checksExistsUserAccount ana_two_todos ?put = Inr 0"
    and c': "checksExistsUserAccount ana_two_todos ?bad = Inr 0"
    by (simp_all add: ana_two_todos_value ana_resolved)
  have p: "\<exists>todo \<in> set (u_todos (ana_two_todos ! 0)). t_id todo = params_id ?put"
    and p': "\<exists>todo \<in> set (u_todos (ana_two_todos ! 0)). t_id todo = params_id ?bad"
    by (simp_all add: ana_two_todos_value ana_def as_ana_def milk_todo_def bread_todo_def)
  have d: "newDate ?e (property (body ?put) ''deadline'') = Inr (Date 1704067200000)"
    by (simp add: sample_env_def as_ana_def milk_def property_def)
  have d': "\<not> (\<exists>date. newDate ?e (property (body ?bad) ''deadline'') = Inr date)"
    by (simp add: sample_env_def as_ana_def eggs_def property_def)
  from C5_update [OF r c p, of ?e, THEN conjunct2, rule_format, OF d] obtain k
    where k: "k < length (u_todos (ana_two_todos ! 0))"
      "t_id (u_todos (ana_two_todos ! 0) ! k) = params_id ?put"
      "app ?e ?put ana_two_todos =
         (\<lparr>status = 200, payload = TodoJson ((u_todos (ana_two_todos ! 0) ! k)
             \<lparr>t_title := property (body ?put) ''title'', t_deadline := Date 1704067200000\<rparr>)\<rparr>,
          ana_two_todos[0 := (ana_two_todos ! 0)
            \<lparr>u_todos := (u_todos (ana_two_todos ! 0))[k := (u_todos (ana_two_todos ! 0) ! k)
                \<lparr>t_title := property (body ?put) ''title'', t_deadline := Date 1704067200000\<rparr>],
             u_todo := PropTodo ((u_todos (ana_two_todos ! 0) ! k)
                \<lparr>t_title := property (body ?put) ''title'',
                 t_deadline := Date 1704067200000\<rparr>)\<rparr>])"
    by blast
  from k(1) have "k = 0 \<or> k = 1"
    by (auto simp: ana_two_todos_value ana_def)
  with k(2) have "k = 1"
    by (auto simp: ana_two_todos_value ana_def as_ana_def milk_todo_def bread_todo_def)
  with k(3) have good: "app ?e ?put ana_two_todos =
     (\<lparr>status = 200, payload = TodoJson
         \<lparr>t_id = ''t2'', t_title = JStr ''buy milk'', t_done = False,
          t_deadline = Date 1704067200000, t_created_at = Date 30\<rparr>\<rparr>,
      [ana [milk_todo,
            \<lparr>t_id = ''t2'', t_title = JStr ''buy milk'', t_done = False,
             t_deadline = Date 1704067200000, t_created_at = Date 30\<rparr>]
         (PropTodo \<lparr>t_id = ''t2'', t_title = JStr ''buy milk'', t_done = False,
             t_deadline = Date 1704067200000, t_created_at = Date 30\<rparr>)])"
    by (simp add: ana_two_todos_value ana_def as_ana_def milk_def property_def bread_todo_def)
  from C5_update [OF r' c' p', of ?e, THEN conjunct1] d'
  have bad: "status (fst (app ?e ?bad ana_two_todos)) \<noteq> 200"
    by simp
  from c d good bad show ?thesis
    by (intro conjI)
qed

section \<open>The identity resolver\<close>

text \<open>
  Claim C6, amended. For a todo request whose header value (\<^verbatim>\<open>undefined\<close> when the
  header is absent) is strictly equal to no stored username, the middleware answers
  with status 400, no handler runs and the store is unchanged. That is the case for
  a header string that no user has as username, and for an absent header when no
  user was created without a username. When some stored username is strictly equal
  to the header value, the middleware resolves the first such user and the handler
  of the route runs on it.
\<close>

theorem C6_identity_resolver:
  assumes "route request \<noteq> POST_users"
  shows "((\<forall>user \<in> set users. \<not> strict_eq (u_username user) (header (headers_username request))) \<longrightarrow>
            checksExistsUserAccount users request =
              Inl \<lparr>status = 400, payload = ErrorJson UserNotFound\<rparr> \<and>
            (\<forall>h. guarded h e request users =
              (\<lparr>status = 400, payload = ErrorJson UserNotFound\<rparr>, users)) \<and>
            app e request users = (\<lparr>status = 400, payload = ErrorJson UserNotFound\<rparr>, users)) \<and>
         (\<forall>s. headers_username request = Some s \<and> (\<forall>user \<in> set users. u_username user \<noteq> JStr s) \<longrightarrow>
            app e request users = (\<lparr>status = 400, payload = ErrorJson UserNotFound\<rparr>, users)) \<and>
         (headers_username request = None \<and> (\<forall>user \<in> set users. u_username user \<noteq> JUndefined) \<longrightarrow>
            app e request users = (\<lparr>status = 400, payload = ErrorJson UserNotFound\<rparr>, users)) \<and>
         ((\<exists>user \<in> set users. strict_eq (u_username user) (header (headers_username request))) \<longrightarrow>
            (\<exists>i. checksExistsUserAccount users request = Inr i)) \<and>
         (\<forall>i. checksExistsUserAccount users request = Inr i \<longrightarrow>
            i < length users \<and>
            strict_eq (u_username (users ! i)) (header (headers_username request)) \<and>
            (\<forall>j < i. \<not> strict_eq (u_username (users ! j)) (header (headers_username request))) \<and>
            (\<forall>h. guarded h e request users = h e i request users) \<and>
            (route request = GET_todos \<longrightarrow> app e request users = get_todos e i request users) \<and>
            (route request = POST_todos \<longrightarrow> app e request users = post_todos e i request users) \<and>
            (route request = PUT_todos_id \<longrightarrow> app e request users = put_todos e i request users) \<and>
            (route request = PATCH_todos_id_done \<longrightarrow>
               app e request users = patch_todos_done e i request users) \<and>
            (route request = DELETE_todos_id \<longrightarrow>
               app e request users = delete_todos e i request users))"
proof (intro conjI allI impI)
  assume n: "\<forall>user \<in> set users. \<not> strict_eq (u_username user) (header (headers_username request))"
  then show "checksExistsUserAccount users request =
      Inl \<lparr>status = 400, payload = ErrorJson UserNotFound\<rparr>"
    by (simp add: checks_Inl)
  from n show "guarded h e request users =
      (\<lparr>status = 400, payload = ErrorJson UserNotFound\<rparr>, users)" for h
    by (rule guarded_rejected)
  from assms n show "app e request users =
      (\<lparr>status = 400, payload = ErrorJson UserNotFound\<rparr>, users)"
    by (rule app_rejected)
next
  fix s
  assume "headers_username request = Some s \<and> (\<forall>user \<in> set users. u_username user \<noteq> JStr s)"
  then have "\<forall>user \<in> set users. \<not> strict_eq (u_username user) (header (headers_username request))"
    by (simp add: header_cases)
  with assms show "app e request users =
      (\<lparr>status = 400, payload = ErrorJson UserNotFound\<rparr>, users)"
    by (rule app_rejected)
next
  assume "headers_username request = None \<and> (\<forall>user \<in> set users. u_username user \<noteq> JUndefined)"
  then have "\<forall>user \<in> set users. \<not> strict_eq (u_username user) (header (headers_username request))"
    by (simp add: header_cases)
  with assms show "app e request users =
      (\<lparr>status = 400, payload = ErrorJson UserNotFound\<rparr>, users)"
    by (rule app_rejected)
next
  assume "\<exists>user \<in> set users. strict_eq (u_username user) (header (headers_username request))"
  then show "\<exists>i. checksExistsUserAccount users request = Inr i"
    by (rule checks_total)
next
  fix i
  assume c: "checksExistsUserAccount users request = Inr i"
  from checks_Inr [OF c]
  show "i < length users"
    and "strict_eq (u_username (users ! i)) (header (headers_username request))"
    by simp_all
  from c show "guarded h e request users = h e i request users" for h
    by (rule guarded_resolved)
  from c show "app e request users = get_todos e i request users" if "route request = GET_todos"
    using that by (simp add: app_def guarded_def)
  from c show "app e request users = post_todos e i request users" if "route request = POST_todos"
    using that by (simp add: app_def guarded_def)
  from c show "app e request users = put_todos e i request users" if "route request = PUT_todos_id"
    using that by (simp add: app_def guarded_def)
  from c show "app e request users = patch_todos_done e i request users"
    if "route request = PATCH_todos_id_done"
    using that by (simp add: app_def guarded_def)
  from c show "app e request users = delete_todos e i request users"
    if "route request = DELETE_todos_id"
    using that by (simp add: app_def guarded_def)
  fix j assume "j < i"
  with checks_Inr [OF c]
  show "\<not> strict_eq (u_username (users ! j)) (header (headers_username request))"
    by simp
qed

theorem C6_identity_resolver_witness:
  "app (sample_env ''u9'' 40) (as_bob GET_todos [] no_fields) ana_store =
     (\<lparr>status = 400, payload = ErrorJson UserNotFound\<rparr>, ana_store) \<and>
   app (sample_env ''u9'' 40) (no_header GET_todos [] no_fields) ana_store =
     (\<lparr>status = 400, payload = ErrorJson UserNotFound\<rparr>, ana_store) \<and>
   checksExistsUserAccount ana_store (as_ana GET_todos [] no_fields) = Inr 0 \<and>
   app (sample_env ''u9'' 40) (as_ana GET_todos [] no_fields) ana_store =
     get_todos (sample_env ''u9'' 40) 0 (as_ana GET_todos [] no_fields) ana_store"
proof -
  let ?e = "sample_env ''u9'' 40"
  have r: "route (as_bob GET_todos [] no_fields) \<noteq> POST_users"
    and r': "route (no_header GET_todos [] no_fields) \<noteq> POST_users"
    and r'': "route (as_ana GET_todos [] no_fields) \<noteq> POST_users"
    "route (as_ana GET_todos [] no_fields) = GET_todos"
    by (simp_all add: as_bob_def no_header_def as_ana_def)
  have h: "headers_username (as_bob GET_todos [] no_fields) = Some ''bob''"
    and h': "headers_username (no_header GET_todos [] no_fields) = None"
    by (simp_all add: as_bob_def no_header_def)
  have n: "\<forall>user \<in> set ana_store. u_username user \<noteq> JStr ''bob''"
    and n': "\<forall>user \<in> set ana_store. u_username user \<noteq> JUndefined"
    by (simp_all add: ana_store_value ana_def)
  have c: "checksExistsUserAccount ana_store (as_ana GET_todos [] no_fields) = Inr 0"
    by (simp add: ana_store_value ana_resolved)
  from C6_identity_resolver [OF r, of ana_store ?e, THEN conjunct2, THEN conjunct1, rule_format,
      OF conjI [OF h n]]
  have bob: "app ?e (as_bob GET_todos [] no_fields) ana_store =
     (\<lparr>status = 400, payload = ErrorJson UserNotFound\<rparr>, ana_store)" .
  from C6_identity_resolver [OF r', of ana_store ?e, THEN conjunct2, THEN conjunct2,
      THEN conjunct1, rule_format, OF conjI [OF h' n']]
  have none: "app ?e (no_header GET_todos [] no_fields) ana_store =
     (\<lparr>status = 400, payload = ErrorJson UserNotFound\<rparr>, ana_store)" .
  from C6_identity_resolver [OF r''(1), of ana_store ?e, THEN conjunct2, THEN conjunct2,
      THEN conjunct2, THEN conjunct2, rule_format, OF c]
  have "app ?e (as_ana GET_todos [] no_fields) ana_store =
     get_todos ?e 0 (as_ana GET_todos [] no_fields) ana_store"
    if "route (as_ana GET_todos [] no_fields) = GET_todos"
    using that by simp
  from this [OF r''(2)]
  have ana: "app ?e (as_ana GET_todos [] no_fields) ana_store =
     get_todos ?e 0 (as_ana GET_todos [] no_fields) ana_store" .
  from bob none c ana show ?thesis
    by (intro conjI)
qed

text \<open>
  Claim C6 as it is written has every request with an absent header rejected. It
  fails on a store with a user created without a username: \<^verbatim>\<open>POST /todos\<close> with no
  header answers 201 and adds a todo to that user.
\<close>

theorem C6_counterexample:
  "headers_username (no_header POST_todos [] milk) = None \<and>
   map u_todos nameless_store = [[]] \<and>
   status (fst (app (sample_env ''t1'' 20) (no_header POST_todos [] milk) nameless_store)) = 201 \<and>
   map u_todos (snd (app (sample_env ''t1'' 20) (no_header POST_todos [] milk) nameless_store)) =
     [[milk_todo]]"
  by (simp add: nameless_store_value nameless_def no_header_def milk_def sample_env_def
      eval_defs milk_todo_def)

section \<open>Creating todos\<close>

text \<open>
  Claim C7, amended. For a resolved user, whenever \<^verbatim>\<open>new Date(deadline)\<close> returns a
  date, \<^verbatim>\<open>POST /todos\<close> builds a todo with \<^verbatim>\<open>done\<close> false, \<^verbatim>\<open>created_at\<close> the current
  time, \<^verbatim>\<open>deadline\<close> that date and \<^verbatim>\<open>id\<close> the value that \<^verbatim>\<open>uuidv4()\<close> returns, appends it
  at the end of the user's \<^verbatim>\<open>todos\<close> and answers with status 201 and the todo. When
  the constructor throws, the request is answered with status 500 and the store is
  unchanged. In a reachable store the id differs from every id already in the
  user's \<^verbatim>\<open>todos\<close> whenever \<^verbatim>\<open>uuidv4()\<close> returns a value that no earlier
  \<^verbatim>\<open>POST /todos\<close> received: ids enter the store only through these calls.
\<close>

theorem C7_create_todo:
  assumes "route request = POST_todos"
    and "checksExistsUserAccount users request = Inr i"
  shows "(\<forall>date. newDate e (property (body request) ''deadline'') = Inr date \<longrightarrow>
            app e request users =
              (\<lparr>status = 201,
                payload = TodoJson \<lparr>t_id = uuidv4 e, t_title = property (body request) ''title'',
                  t_done = False, t_deadline = date, t_created_at = now e\<rparr>\<rparr>,
               users[i := (users ! i)\<lparr>u_todos := u_todos (users ! i) @
                  [\<lparr>t_id = uuidv4 e, t_title = property (body request) ''title'',
                    t_done = False, t_deadline = date, t_created_at = now e\<rparr>]\<rparr>]) \<and>
            u_todos (snd (app e request users) ! i) =
              u_todos (users ! i) @
                [\<lparr>t_id = uuidv4 e, t_title = property (body request) ''title'',
                  t_done = False, t_deadline = date, t_created_at = now e\<rparr>]) \<and>
         (\<forall>err. newDate e (property (body request) ''deadline'') = Inl err \<longrightarrow>
            app e request users = (\<lparr>status = 500, payload = ErrorPage\<rparr>, users)) \<and>
         (\<forall>trace. users = run trace [] \<and>
            (\<forall>c \<in> set trace. route (snd c) = POST_todos \<longrightarrow> uuidv4 (fst c) \<noteq> uuidv4 e) \<longrightarrow>
            (\<forall>todo \<in> set (u_todos (users ! i)). t_id todo \<noteq> uuidv4 e))"
proof (intro conjI allI impI)
  from checks_Inr [OF assms(2)] have i: "i < length users" by simp
  {
    fix date
    assume date: "newDate e (property (body request) ''deadline'') = Inr date"
    note app = post_todos_created [OF assms date]
    from app show "app e request users =
        (\<lparr>status = 201, payload = TodoJson (created_todo e request date)\<rparr>,
         users[i := (users ! i)\<lparr>u_todos := u_todos (users ! i) @ [created_todo e request date]\<rparr>])" .
    from i show "u_todos (snd (app e request users) ! i) =
        u_todos (users ! i) @ [created_todo e request date]"
      by (simp add: app)
  }
  {
    fix err
    assume "newDate e (property (body request) ''deadline'') = Inl err"
    from post_todos_thrown [OF assms this]
    show "app e request users = (\<lparr>status = 500, payload = ErrorPage\<rparr>, users)" .
  }
  {
    fix trace
    assume a: "users = run trace [] \<and>
      (\<forall>c \<in> set trace. route (snd c) = POST_todos \<longrightarrow> uuidv4 (fst c) \<noteq> uuidv4 e)"
    then have users: "users = run trace []"
      and fresh: "\<forall>c \<in> set trace. route (snd c) = POST_todos \<longrightarrow> uuidv4 (fst c) \<noteq> uuidv4 e"
      by simp_all
    have sub: "todo_ids users \<subseteq> {uuidv4 (fst c) | c. c \<in> set trace \<and> route (snd c) = POST_todos}"
      unfolding users using run_ids [of trace "[]"] by (simp add: todo_ids_def)
    have "uuidv4 e \<notin> todo_ids users"
    proof
      assume "uuidv4 e \<in> todo_ids users"
      with sub have "uuidv4 e \<in> {uuidv4 (fst c) | c. c \<in> set trace \<and> route (snd c) = POST_todos}"
        by (rule subsetD)
      then obtain c where "c \<in> set trace" "route (snd c) = POST_todos" "uuidv4 (fst c) = uuidv4 e"
        unfolding mem_Collect_eq by metis
      with fresh show False by blast
    qed
    with todo_ids_nth [OF i] show "\<forall>todo \<in> set (u_todos (users ! i)). t_id todo \<noteq> uuidv4 e"
      by auto
  }
qed

theorem C7_create_todo_witness:
  "checksExistsUserAccount (run ana_one_todo []) (as_ana POST_todos [] bread) = Inr 0 \<and>
   newDate (sample_env ''t2'' 30) (property (body (as_ana POST_todos [] bread)) ''deadline'') =
     Inr InvalidDate \<and>
   app (sample_env ''t2'' 30) (as_ana POST_todos [] bread) (run ana_one_todo []) =
     (\<lparr>status = 201, payload = TodoJson bread_todo\<rparr>, [ana [milk_todo, bread_todo] NoProp]) \<and>
   newDate (sample_env ''t2'' 30) (property (body (as_ana POST_todos [] eggs)) ''deadline'') =
     Inl TypeError \<and>
   app (sample_env ''t2'' 30) (as_ana POST_todos [] eggs) (run ana_one_todo []) =
     (\<lparr>status = 500, payload = ErrorPage\<rparr>, [ana [milk_todo] NoProp]) \<and>
   t_id milk_todo \<noteq> uuidv4 (sample_env ''t2'' 30)"
proof -
  let ?e = "sample_env ''t2'' 30"
  let ?good = "as_ana POST_todos [] bread"
  let ?bad = "as_ana POST_todos [] eggs"
  have r: "route ?good = POST_todos" and r': "route ?bad = POST_todos"
    by (simp_all add: as_ana_def)
  have c: "checksExistsUserAccount (run ana_one_todo []) ?good = Inr 0"
    and c': "checksExistsUserAccount (run ana_one_todo []) ?bad = Inr 0"
    by (simp_all add: ana_one_todo_value ana_resolved)
  have d: "newDate ?e (property (body ?good) ''deadline'') = Inr InvalidDate"
    by (simp add: sample_env_def as_ana_def bread_def property_def)
  have d': "newDate ?e (property (body ?bad) ''deadline'') = Inl TypeError"
    by (simp add: sample_env_def as_ana_def eggs_def property_def)
  have f: "run ana_one_todo [] = run ana_one_todo [] \<and>
      (\<forall>c \<in> set ana_one_todo. route (snd c) = POST_todos \<longrightarrow> uuidv4 (fst c) \<noteq> uuidv4 ?e)"
    by (simp add: ana_one_todo_def sample_env_def)
  note c7 = C7_create_todo [OF r c, of ?e]
  from c7 [THEN conjunct1, rule_format, OF d, THEN conjunct1]
  have good: "app ?e ?good (run ana_one_todo []) =
     (\<lparr>status = 201, payload = TodoJson bread_todo\<rparr>, [ana [milk_todo, bread_todo] NoProp])"
    by (simp add: ana_one_todo_value ana_def as_ana_def bread_def property_def sample_env_def
        bread_todo_def)
  from C7_create_todo [OF r' c', of ?e, THEN conjunct2, THEN conjunct1, rule_format, OF d']
  have bad: "app ?e ?bad (run ana_one_todo []) =
     (\<lparr>status = 500, payload = ErrorPage\<rparr>, [ana [milk_todo] NoProp])"
    by (simp add: ana_one_todo_value)
  from c7 [THEN conjunct2, THEN conjunct2, THEN spec, THEN mp, OF f]
  have "\<forall>todo \<in> set (u_todos (run ana_one_todo [] ! 0)). t_id todo \<noteq> uuidv4 ?e" .
  then have fresh: "t_id milk_todo \<noteq> uuidv4 ?e"
    by (simp add: ana_one_todo_value ana_def)
  from c d good d' bad fresh show ?thesis
    by (intro conjI)
qed

text \<open>
  Claim C7 as it is written, for every request of a resolved user, fails twice. A
  \<^verbatim>\<open>deadline\<close> that is an object with a property \<^verbatim>\<open>toString\<close> makes the constructor
  throw: the request is answered with status 500 and no todo is added. And the id is
  whatever \<^verbatim>\<open>uuidv4()\<close> returns: if it returns the id of an earlier todo, the user has
  two todos with that id.
\<close>

theorem C7_counterexample:
  "checksExistsUserAccount ana_store (as_ana POST_todos [] eggs) = Inr 0 \<and>
   app (sample_env ''t1'' 20) (as_ana POST_todos [] eggs) ana_store =
     (\<lparr>status = 500, payload = ErrorPage\<rparr>, ana_store) \<and>
   map t_id (u_todos (snd (app (sample_env ''t1'' 30) (as_ana POST_todos [] bread)
     (run ana_one_todo [])) ! 0)) = [''t1'', ''t1'']"
  by (simp add: ana_store_value ana_one_todo_value ana_resolved)
    (simp add: ana_def as_ana_def eggs_def bread_def sample_env_def eval_defs milk_todo_def)

section \<open>Listing\<close>



section \<open>The property todo of a user\<close>

text \<open>
  Claim C9. For a resolved user, \<^verbatim>\<open>PUT /todos/:id\<close> and \<^verbatim>\<open>PATCH /todos/:id/done\<close>
  assign the property \<^verbatim>\<open>todo\<close> of the user on every call: \<^verbatim>\<open>undefined\<close> when no todo
  has the id (status 404), the matched todo when one has. With a matched todo the
  call succeeds with status 200 and returns that todo, except for a \<^verbatim>\<open>PUT\<close> whose
  \<^verbatim>\<open>new Date(deadline)\<close> throws, which is answered with status 500 after the
  assignment. After the call the property exists, so on a user that did not have it
  the store has changed outside \<^verbatim>\<open>todos\<close>.
\<close>

theorem C9_todo_property:
  assumes "route request \<in> {PUT_todos_id, PATCH_todos_id_done}"
    and "checksExistsUserAccount users request = Inr i"
  shows "((\<forall>todo \<in> set (u_todos (users ! i)). t_id todo \<noteq> params_id request) \<longrightarrow>
            status (fst (app e request users)) = 404 \<and>
            u_todo (snd (app e request users) ! i) = PropUndefined) \<and>
         ((\<exists>todo \<in> set (u_todos (users ! i)). t_id todo = params_id request) \<longrightarrow>
            (\<exists>k < length (u_todos (users ! i)).
               t_id (u_todos (users ! i) ! k) = params_id request \<and>
               (\<forall>j < k. t_id (u_todos (users ! i) ! j) \<noteq> params_id request) \<and>
               u_todo (snd (app e request users) ! i) =
                 PropTodo (u_todos (snd (app e request users) ! i) ! k) \<and>
               (status (fst (app e request users)) = 200 \<longrightarrow>
                  payload (fst (app e request users)) =
                    TodoJson (u_todos (snd (app e request users) ! i) ! k)) \<and>
               (route request = PATCH_todos_id_done \<longrightarrow>
                  status (fst (app e request users)) = 200) \<and>
               (route request = PUT_todos_id \<longrightarrow>
                  (\<forall>date. newDate e (property (body request) ''deadline'') = Inr date \<longrightarrow>
                     status (fst (app e request users)) = 200) \<and>
                  (\<forall>err. newDate e (property (body request) ''deadline'') = Inl err \<longrightarrow>
                     status (fst (app e request users)) = 500)))) \<and>
         u_todo (snd (app e request users) ! i) \<noteq> NoProp \<and>
         (u_todo (users ! i) = NoProp \<longrightarrow> snd (app e request users) \<noteq> users)"
proof -
  let ?ts = "u_todos (users ! i)"
  let ?find = "findIndex (\<lambda>todo. t_id todo = params_id request) ?ts"
  let ?deadline = "newDate e (property (body request) ''deadline'')"
  from checks_Inr [OF assms(2)] have i: "i < length users" by simp
  have missing: "status (fst (app e request users)) = 404 \<and>
      u_todo (snd (app e request users) ! i) = PropUndefined" if "?find = None"
  proof -
    from assms(1) put_missing [OF _ assms(2) that, of e] patch_missing [OF _ assms(2) that, of e]
    have "app e request users = (\<lparr>status = 404, payload = ErrorJson TodoNotFound\<rparr>,
        users[i := (users ! i)\<lparr>u_todo := PropUndefined\<rparr>])"
      by auto
    with i show ?thesis by simp
  qed
  have found: "u_todo (snd (app e request users) ! i) =
        PropTodo (u_todos (snd (app e request users) ! i) ! k) \<and>
      (status (fst (app e request users)) = 200 \<longrightarrow>
         payload (fst (app e request users)) =
           TodoJson (u_todos (snd (app e request users) ! i) ! k)) \<and>
      (route request = PATCH_todos_id_done \<longrightarrow> status (fst (app e request users)) = 200) \<and>
      (route request = PUT_todos_id \<longrightarrow>
         (\<forall>date. ?deadline = Inr date \<longrightarrow> status (fst (app e request users)) = 200) \<and>
         (\<forall>err. ?deadline = Inl err \<longrightarrow> status (fst (app e request users)) = 500))"
    if "?find = Some k" for k
  proof -
    from findIndex_Some [OF that] have k: "k < length ?ts" by simp
    from assms(1) consider "route request = PUT_todos_id" | "route request = PATCH_todos_id_done"
      by auto
    then show ?thesis
    proof cases
      case 1
      show ?thesis
      proof (cases ?deadline)
        case (Inl err)
        from put_thrown [OF 1 assms(2) that Inl] i k 1 Inl show ?thesis by simp
      next
        case (Inr date)
        from put_found [OF 1 assms(2) that Inr] i k 1 Inr show ?thesis by simp
      qed
    next
      case 2
      from patch_found [OF 2 assms(2) that, of e] i k 2 show ?thesis by simp
    qed
  qed
  have a: "(\<forall>todo \<in> set ?ts. t_id todo \<noteq> params_id request) \<longrightarrow>
            status (fst (app e request users)) = 404 \<and>
            u_todo (snd (app e request users) ! i) = PropUndefined"
  proof
    assume "\<forall>todo \<in> set ?ts. t_id todo \<noteq> params_id request"
    then have "?find = None" by (rule findIndex_absent)
    then show "status (fst (app e request users)) = 404 \<and>
            u_todo (snd (app e request users) ! i) = PropUndefined"
      by (rule missing)
  qed
  have b: "(\<exists>todo \<in> set ?ts. t_id todo = params_id request) \<longrightarrow>
            (\<exists>k < length ?ts.
               t_id (?ts ! k) = params_id request \<and>
               (\<forall>j < k. t_id (?ts ! j) \<noteq> params_id request) \<and>
               u_todo (snd (app e request users) ! i) =
                 PropTodo (u_todos (snd (app e request users) ! i) ! k) \<and>
               (status (fst (app e request users)) = 200 \<longrightarrow>
                  payload (fst (app e request users)) =
                    TodoJson (u_todos (snd (app e request users) ! i) ! k)) \<and>
               (route request = PATCH_todos_id_done \<longrightarrow>
                  status (fst (app e request users)) = 200) \<and>
               (route request = PUT_todos_id \<longrightarrow>
                  (\<forall>date. ?deadline = Inr date \<longrightarrow> status (fst (app e request users)) = 200) \<and>
                  (\<forall>err. ?deadline = Inl err \<longrightarrow> status (fst (app e request users)) = 500)))"
  proof
    assume "\<exists>todo \<in> set ?ts. t_id todo = params_id request"
    then obtain k where k: "?find = Some k" "k < length ?ts" "t_id (?ts ! k) = params_id request"
      "\<forall>j < k. t_id (?ts ! j) \<noteq> params_id request"
      by (rule findIndex_present)
    from found [OF k(1)] k(2-4) show "\<exists>k < length ?ts.
               t_id (?ts ! k) = params_id request \<and>
               (\<forall>j < k. t_id (?ts ! j) \<noteq> params_id request) \<and>
               u_todo (snd (app e request users) ! i) =
                 PropTodo (u_todos (snd (app e request users) ! i) ! k) \<and>
               (status (fst (app e request users)) = 200 \<longrightarrow>
                  payload (fst (app e request users)) =
                    TodoJson (u_todos (snd (app e request users) ! i) ! k)) \<and>
               (route request = PATCH_todos_id_done \<longrightarrow>
                  status (fst (app e request users)) = 200) \<and>
               (route request = PUT_todos_id \<longrightarrow>
                  (\<forall>date. ?deadline = Inr date \<longrightarrow> status (fst (app e request users)) = 200) \<and>
                  (\<forall>err. ?deadline = Inl err \<longrightarrow> status (fst (app e request users)) = 500))"
      by blast
  qed
  have c: "u_todo (snd (app e request users) ! i) \<noteq> NoProp"
  proof (cases ?find)
    case None
    from missing [OF None] show ?thesis by simp
  next
    case (Some k)
    from found [OF Some] show ?thesis by simp
  qed
  then have d: "u_todo (users ! i) = NoProp \<longrightarrow> snd (app e request users) \<noteq> users"
    by auto
  show ?thesis
    by (rule conjI [OF a conjI [OF b conjI [OF c d]]])
qed

theorem C9_todo_property_witness:
  "checksExistsUserAccount ana_two_todos (as_ana PUT_todos_id ''zz'' milk) = Inr 0 \<and>
   u_todo (ana_two_todos ! 0) = NoProp \<and>
   status (fst (app (sample_env ''u9'' 40) (as_ana PUT_todos_id ''zz'' milk) ana_two_todos)) = 404 \<and>
   u_todo (snd (app (sample_env ''u9'' 40) (as_ana PUT_todos_id ''zz'' milk) ana_two_todos) ! 0) =
     PropUndefined \<and>
   snd (app (sample_env ''u9'' 40) (as_ana PUT_todos_id ''zz'' milk) ana_two_todos) \<noteq> ana_two_todos \<and>
   checksExistsUserAccount ana_two_todos (as_ana PATCH_todos_id_done ''t2'' no_fields) = Inr 0 \<and>
   status (fst (app (sample_env ''u9'' 40) (as_ana PATCH_todos_id_done ''t2'' no_fields) ana_two_todos)) = 200 \<and>
   u_todo (snd (app (sample_env ''u9'' 40) (as_ana PATCH_todos_id_done ''t2'' no_fields) ana_two_todos) ! 0) =
     PropTodo (bread_todo\<lparr>t_done := True\<rparr>) \<and>
   status (fst (app (sample_env ''u9'' 40) (as_ana PUT_todos_id ''t2'' eggs) ana_two_todos)) = 500 \<and>
   u_todo (snd (app (sample_env ''u9'' 40) (as_ana PUT_todos_id ''t2'' eggs) ana_two_todos) ! 0) =
     PropTodo (bread_todo\<lparr>t_title := JStr ''buy eggs''\<rparr>)"
proof -
  let ?e = "sample_env ''u9'' 40"
  let ?put = "as_ana PUT_todos_id ''zz'' milk"
  let ?patch = "as_ana PATCH_todos_id_done ''t2'' no_fields"
  let ?bad = "as_ana PUT_todos_id ''t2'' eggs"
  have r1: "route ?put \<in> {PUT_todos_id, PATCH_todos_id_done}"
    and r2: "route ?patch \<in> {PUT_todos_id, PATCH_todos_id_done}"
    and r3: "route ?bad \<in> {PUT_todos_id, PATCH_todos_id_done}"
    and r2': "route ?patch = PATCH_todos_id_done" and r3': "route ?bad = PUT_todos_id"
    by (simp_all add: as_ana_def)
  have c1: "checksExistsUserAccount ana_two_todos ?put = Inr 0"
    and c2: "checksExistsUserAccount ana_two_todos ?patch = Inr 0"
    and c3: "checksExistsUserAccount ana_two_todos ?bad = Inr 0"
    by (simp_all add: ana_two_todos_value ana_resolved)
  have n: "\<forall>todo \<in> set (u_todos (ana_two_todos ! 0)). t_id todo \<noteq> params_id ?put"
    by (simp add: ana_two_todos_value ana_def as_ana_def milk_todo_def bread_todo_def)
  have p: "\<exists>todo \<in> set (u_todos (ana_two_todos ! 0)). t_id todo = params_id ?patch"
    and p': "\<exists>todo \<in> set (u_todos (ana_two_todos ! 0)). t_id todo = params_id ?bad"
    by (simp_all add: ana_two_todos_value ana_def as_ana_def milk_todo_def bread_todo_def)
  have thrown: "newDate ?e (property (body ?bad) ''deadline'') = Inl TypeError"
    by (simp add: sample_env_def as_ana_def eggs_def property_def)
  have fresh: "u_todo (ana_two_todos ! 0) = NoProp"
    by (simp add: ana_two_todos_value ana_def)
  note put = C9_todo_property [OF r1 c1, of ?e]
  from put [THEN conjunct1, THEN mp, OF n]
  have put1: "status (fst (app ?e ?put ana_two_todos)) = 404"
    and put2: "u_todo (snd (app ?e ?put ana_two_todos) ! 0) = PropUndefined"
    by simp_all
  from put [THEN conjunct2, THEN conjunct2, THEN conjunct2, THEN mp, OF fresh]
  have put3: "snd (app ?e ?put ana_two_todos) \<noteq> ana_two_todos" .
  from C9_todo_property [OF r2 c2, of ?e, THEN conjunct2, THEN conjunct1, THEN mp, OF p]
  obtain k
    where k: "k < length (u_todos (ana_two_todos ! 0))"
      "t_id (u_todos (ana_two_todos ! 0) ! k) = params_id ?patch"
      "u_todo (snd (app ?e ?patch ana_two_todos) ! 0) =
         PropTodo (u_todos (snd (app ?e ?patch ana_two_todos) ! 0) ! k)"
      "route ?patch = PATCH_todos_id_done \<longrightarrow> status (fst (app ?e ?patch ana_two_todos)) = 200"
    by blast
  from k(4) r2' have patch1: "status (fst (app ?e ?patch ana_two_todos)) = 200"
    by simp
  from k(1) have "k = 0 \<or> k = 1"
    by (auto simp: ana_two_todos_value ana_def)
  with k(2) have k1: "k = 1"
    by (auto simp: ana_two_todos_value ana_def as_ana_def milk_todo_def bread_todo_def)
  have "u_todos (snd (app ?e ?patch ana_two_todos) ! 0) ! 1 = bread_todo\<lparr>t_done := True\<rparr>"
    by (simp add: ana_two_todos_value ana_def as_ana_def eval_defs milk_todo_def bread_todo_def)
  with k(3) k1
  have patch2: "u_todo (snd (app ?e ?patch ana_two_todos) ! 0) = PropTodo (bread_todo\<lparr>t_done := True\<rparr>)"
    by simp
  from C9_todo_property [OF r3 c3, of ?e, THEN conjunct2, THEN conjunct1, THEN mp, OF p']
  obtain m
    where m: "m < length (u_todos (ana_two_todos ! 0))"
      "t_id (u_todos (ana_two_todos ! 0) ! m) = params_id ?bad"
      "u_todo (snd (app ?e ?bad ana_two_todos) ! 0) =
         PropTodo (u_todos (snd (app ?e ?bad ana_two_todos) ! 0) ! m)"
      "route ?bad = PUT_todos_id \<longrightarrow>
         (\<forall>err. newDate ?e (property (body ?bad) ''deadline'') = Inl err \<longrightarrow>
            status (fst (app ?e ?bad ana_two_todos)) = 500)"
    by blast
  from m(4) r3' thrown have bad1: "status (fst (app ?e ?bad ana_two_todos)) = 500"
    by blast
  from m(1) have "m = 0 \<or> m = 1"
    by (auto simp: ana_two_todos_value ana_def)
  with m(2) have m1: "m = 1"
    by (auto simp: ana_two_todos_value ana_def as_ana_def milk_todo_def bread_todo_def)
  have "u_todos (snd (app ?e ?bad ana_two_todos) ! 0) ! 1 = bread_todo\<lparr>t_title := JStr ''buy eggs''\<rparr>"
    by (simp add: ana_two_todos_value ana_def as_ana_def sample_env_def eggs_def eval_defs
        milk_todo_def bread_todo_def)
  with m(3) m1
  have bad2: "u_todo (snd (app ?e ?bad ana_two_todos) ! 0) =
      PropTodo (bread_todo\<lparr>t_title := JStr ''buy eggs''\<rparr>)"
    by simp
  from c1 fresh put1 put2 put3 c2 patch1 patch2 bad1 bad2 show ?thesis
    by (intro conjI)
qed

section \<open>No validation of the body\<close>

text \<open>
  Claim C10. \<^verbatim>\<open>POST /users\<close> checks nothing but the username: whatever the body,
  a user with the \<^verbatim>\<open>name\<close> and \<^verbatim>\<open>username\<close> of the body (\<^verbatim>\<open>undefined\<close> for a property the
  body does not have) is created when no stored username is strictly equal to the
  one sent. A body with no \<^verbatim>\<open>username\<close> creates a user whose username is \<^verbatim>\<open>undefined\<close>
  (when no such user exists yet), and from then on every request with no username
  header resolves to a user whose username is \<^verbatim>\<open>undefined\<close>.
\<close>

theorem C10_no_validation:
  assumes "route request = POST_users"
  shows "(\<forall>v. body request ''username'' = Some v \<and>
              (\<forall>user \<in> set users. \<not> strict_eq (u_username user) v) \<longrightarrow>
            app e request users =
              (\<lparr>status = 201,
                payload = UserJson
                  \<lparr>u_id = uuidv4 e,
                   u_name = (case body request ''name'' of None \<Rightarrow> JUndefined | Some n \<Rightarrow> n),
                   u_username = v, u_todos = [], u_todo = NoProp\<rparr>\<rparr>,
               users @
                 [\<lparr>u_id = uuidv4 e,
                   u_name = (case body request ''name'' of None \<Rightarrow> JUndefined | Some n \<Rightarrow> n),
                   u_username = v, u_todos = [], u_todo = NoProp\<rparr>])) \<and>
         (body request ''username'' = None \<and> (\<forall>user \<in> set users. u_username user \<noteq> JUndefined) \<longrightarrow>
            app e request users =
              (\<lparr>status = 201,
                payload = UserJson
                  \<lparr>u_id = uuidv4 e,
                   u_name = (case body request ''name'' of None \<Rightarrow> JUndefined | Some n \<Rightarrow> n),
                   u_username = JUndefined, u_todos = [], u_todo = NoProp\<rparr>\<rparr>,
               users @
                 [\<lparr>u_id = uuidv4 e,
                   u_name = (case body request ''name'' of None \<Rightarrow> JUndefined | Some n \<Rightarrow> n),
                   u_username = JUndefined, u_todos = [], u_todo = NoProp\<rparr>]) \<and>
            (\<forall>request'. headers_username request' = None \<longrightarrow>
               checksExistsUserAccount (snd (app e request users)) request' = Inr (length users))) \<and>
         (body request ''username'' = None \<longrightarrow>
            (\<forall>trace request'. headers_username request' = None \<longrightarrow>
               (\<exists>k. checksExistsUserAccount (run trace (snd (app e request users))) request' = Inr k \<and>
                    u_username (run trace (snd (app e request users)) ! k) = JUndefined)))"
proof (intro conjI impI allI)
  fix v
  assume a: "body request ''username'' = Some v \<and>
    (\<forall>user \<in> set users. \<not> strict_eq (u_username user) v)"
  then have u: "property (body request) ''username'' = v"
    by (simp add: property_def)
  from a have "\<forall>user \<in> set users. \<not> strict_eq (u_username user) (property (body request) ''username'')"
    by (simp add: u)
  from post_users_created [OF assms this, of e]
  show "app e request users =
      (\<lparr>status = 201,
        payload = UserJson
          \<lparr>u_id = uuidv4 e,
           u_name = (case body request ''name'' of None \<Rightarrow> JUndefined | Some n \<Rightarrow> n),
           u_username = v, u_todos = [], u_todo = NoProp\<rparr>\<rparr>,
       users @
         [\<lparr>u_id = uuidv4 e,
           u_name = (case body request ''name'' of None \<Rightarrow> JUndefined | Some n \<Rightarrow> n),
           u_username = v, u_todos = [], u_todo = NoProp\<rparr>])"
    unfolding u by (simp add: property_def)
next
  assume a: "body request ''username'' = None \<and> (\<forall>user \<in> set users. u_username user \<noteq> JUndefined)"
  then have u: "property (body request) ''username'' = JUndefined"
    by (simp add: property_def)
  from a have "\<forall>user \<in> set users. \<not> strict_eq (u_username user) (property (body request) ''username'')"
    by (simp add: u strict_eq_iff)
  from post_users_created [OF assms this, of e]
  show created: "app e request users =
      (\<lparr>status = 201,
        payload = UserJson
          \<lparr>u_id = uuidv4 e,
           u_name = (case body request ''name'' of None \<Rightarrow> JUndefined | Some n \<Rightarrow> n),
           u_username = JUndefined, u_todos = [], u_todo = NoProp\<rparr>\<rparr>,
       users @
         [\<lparr>u_id = uuidv4 e,
           u_name = (case body request ''name'' of None \<Rightarrow> JUndefined | Some n \<Rightarrow> n),
           u_username = JUndefined, u_todos = [], u_todo = NoProp\<rparr>])"
    unfolding u by (simp add: property_def)
  fix request' :: request
  assume h: "headers_username request' = None"
  let ?users = "snd (app e request users)"
  have "JUndefined \<in> set (map u_username ?users)"
    by (simp add: created)
  from absent_header_resolves [OF h this] obtain k
    where k: "checksExistsUserAccount ?users request' = Inr k" "u_username (?users ! k) = JUndefined"
    by blast
  from checks_Inr [OF k(1)] have "k < length ?users" by simp
  then have "k < Suc (length users)" by (simp add: created)
  moreover have "k \<noteq> length users \<longrightarrow> k < length users \<longrightarrow> u_username (?users ! k) \<noteq> JUndefined"
    using a by (simp add: created nth_append)
  ultimately have "k = length users"
    using k(2) by (cases "k < length users") auto
  with k(1) show "checksExistsUserAccount ?users request' = Inr (length users)"
    by simp
next
  fix trace and request' :: request
  assume b: "body request ''username'' = None" and h: "headers_username request' = None"
  let ?users = "snd (app e request users)"
  from b have u: "property (body request) ''username'' = JUndefined"
    by (simp add: property_def)
  have "JUndefined \<in> set (map u_username ?users)"
  proof (cases "\<exists>user \<in> set users. strict_eq (u_username user) (property (body request) ''username'')")
    case True
    then have "JUndefined \<in> set (map u_username users)"
      by (force simp: u strict_eq_iff)
    with post_users_conflict [OF assms True, of e] show ?thesis by simp
  next
    case False
    then have "\<forall>user \<in> set users. \<not> strict_eq (u_username user) (property (body request) ''username'')"
      by simp
    from post_users_created [OF assms this, of e] show ?thesis by (simp add: u)
  qed
  then have "JUndefined \<in> set (map u_username (run trace ?users))"
    by (rule run_keeps_username)
  from absent_header_resolves [OF h this]
  show "\<exists>k. checksExistsUserAccount (run trace ?users) request' = Inr k \<and>
            u_username (run trace ?users ! k) = JUndefined" .
qed

theorem C10_no_validation_witness:
  "body create_nameless ''username'' = None \<and>
   app (sample_env ''u1'' 10) create_nameless [] =
     (\<lparr>status = 201, payload = UserJson nameless\<rparr>, [nameless]) \<and>
   checksExistsUserAccount (snd (app (sample_env ''u1'' 10) create_nameless []))
     (no_header GET_todos [] no_fields) = Inr 0 \<and>
   body create_ana ''username'' = Some (JStr ''ana'') \<and>
   app (sample_env ''u2'' 20) create_ana nameless_store =
     (\<lparr>status = 201,
       payload = UserJson \<lparr>u_id = ''u2'', u_name = JStr ''Ana'', u_username = JStr ''ana'',
         u_todos = [], u_todo = NoProp\<rparr>\<rparr>,
      [nameless, \<lparr>u_id = ''u2'', u_name = JStr ''Ana'', u_username = JStr ''ana'',
         u_todos = [], u_todo = NoProp\<rparr>]) \<and>
   body create_object ''username'' = Some (JObject []) \<and>
   app (sample_env ''u2'' 20) create_object object_store =
     (\<lparr>status = 201, payload = UserJson (bob ''u2'')\<rparr>, [bob ''u1'', bob ''u2''])"
proof -
  let ?e = "sample_env ''u1'' 10"
  let ?e' = "sample_env ''u2'' 20"
  have r: "route create_nameless = POST_users" and r': "route create_ana = POST_users"
    and r'': "route create_object = POST_users"
    by (simp_all add: create_nameless_def create_ana_def create_object_def)
  have b: "body create_nameless ''username'' = None"
    by (simp add: create_nameless_def no_fields_def)
  have n: "\<forall>user \<in> set []. u_username user \<noteq> JUndefined"
    by simp
  have h: "headers_username (no_header GET_todos [] no_fields) = None"
    by (simp add: no_header_def)
  note c10 = C10_no_validation [OF r, of "[]" ?e, THEN conjunct2, THEN conjunct1, THEN mp,
      OF conjI [OF b n]]
  from c10 [THEN conjunct1]
  have first: "app ?e create_nameless [] =
     (\<lparr>status = 201, payload = UserJson nameless\<rparr>, [nameless])"
    by (simp add: sample_env_def create_nameless_def no_fields_def nameless_def)
  from c10 [THEN conjunct2, THEN spec, THEN mp, OF h]
  have second: "checksExistsUserAccount (snd (app ?e create_nameless []))
      (no_header GET_todos [] no_fields) = Inr 0"
    by (simp only: list.size)
  have b': "body create_ana ''username'' = Some (JStr ''ana'')"
    by (simp add: create_ana_def)
  have n': "\<forall>user \<in> set nameless_store. \<not> strict_eq (u_username user) (JStr ''ana'')"
    by (simp add: nameless_store_value nameless_def)
  from C10_no_validation [OF r', of nameless_store ?e', THEN conjunct1, THEN spec, THEN mp,
      OF conjI [OF b' n']]
  have third: "app ?e' create_ana nameless_store =
     (\<lparr>status = 201,
       payload = UserJson \<lparr>u_id = ''u2'', u_name = JStr ''Ana'', u_username = JStr ''ana'',
         u_todos = [], u_todo = NoProp\<rparr>\<rparr>,
      [nameless, \<lparr>u_id = ''u2'', u_name = JStr ''Ana'', u_username = JStr ''ana'',
         u_todos = [], u_todo = NoProp\<rparr>])"
    by (simp add: nameless_store_value sample_env_def create_ana_def)
  have b'': "body create_object ''username'' = Some (JObject [])"
    by (simp add: create_object_def)
  have n'': "\<forall>user \<in> set object_store. \<not> strict_eq (u_username user) (JObject [])"
    by (simp add: object_store_value bob_def)
  from C10_no_validation [OF r'', of object_store ?e', THEN conjunct1, THEN spec, THEN mp,
      OF conjI [OF b'' n'']]
  have fourth: "app ?e' create_object object_store =
     (\<lparr>status = 201, payload = UserJson (bob ''u2'')\<rparr>, [bob ''u1'', bob ''u2''])"
    by (simp add: object_store_value sample_env_def create_object_def bob_def)
  from b first second b' third b'' fourth show ?thesis
    by (intro conjI)
qed

end
